theory Spec2Isabelle
  imports Main
begin

section \<open>Syntax trees\<close>

text \<open>
  The transform helper (\<^verbatim>\<open>src/transforms/helpers/transform-helper.js\<close>) works on
  ESTree nodes built by the jscodeshift factory \<^verbatim>\<open>j\<close>. The nodes the helper builds,
  inspects or walks through are modelled by three mutually recursive datatypes.

  Every node may carry \<^verbatim>\<open>comments\<close>; the helper reads and writes that field on
  properties, on members and on expression statements only, so these are the nodes
  that carry it here. An absent field (\<^verbatim>\<open>undefined\<close>) is \<open>None\<close>.
\<close>

type_synonym comments = "string list option"

datatype expr =
    ThisExpression
  | Super
  | Identifier string
  | Literal string
  | CallExpression expr "expr list"
  | MemberExpression expr expr bool
  | BinaryExpression string expr expr
  | AssignmentExpression string expr expr
  | FunctionExpression "expr option" "expr list" stmt
  | ObjectExpression "property list"
and stmt =
    ExpressionStatement expr comments
  | BlockStatement "stmt list"
  | IfStatement expr stmt "stmt option"
  | WhileStatement expr stmt
  | ReturnStatement "expr option"
and property =
    Property (prop_kind: string) (prop_key: expr) (prop_value: expr) (prop_comments: comments)

datatype decorator = Decorator expr

text \<open>
  The exceptions: the \<^verbatim>\<open>TypeError\<close> of the language (a property read or a call on
  \<^verbatim>\<open>undefined\<close>), and the error the factory throws when an argument of a builder does
  not fit the type of its field.
\<close>

datatype error = TypeError | BuilderError

section \<open>The factory\<close>

text \<open>
  The builders \<^verbatim>\<open>j.identifier\<close>, \<^verbatim>\<open>j.callExpression\<close>, \<^verbatim>\<open>j.assignmentExpression\<close>,
  \<^verbatim>\<open>j.functionExpression\<close>, \<^verbatim>\<open>j.expressionStatement\<close>, \<^verbatim>\<open>j.blockStatement\<close>,
  \<^verbatim>\<open>j.thisExpression\<close> and \<^verbatim>\<open>j.super\<close> are the constructors of the datatypes: the helper
  calls them with expressions and statements only, which their fields accept.

  \<^verbatim>\<open>j.memberExpression(object, property)\<close> is always called without its third
  argument. The factory then computes \<^verbatim>\<open>computed\<close> from the type of the property: true
  for a literal, a member expression or a binary expression, false otherwise.
\<close>

fun computedDefault :: "expr \<Rightarrow> bool" where
  "computedDefault (Literal v) = True"
| "computedDefault (MemberExpression obj p c) = True"
| "computedDefault (BinaryExpression opr l r) = True"
| "computedDefault _ = False"

definition memberExpression :: "expr \<Rightarrow> expr \<Rightarrow> expr" where
  "memberExpression obj p = MemberExpression obj p (computedDefault p)"

section \<open>Superclass delegation\<close>

text \<open>
  The filter of \<^verbatim>\<open>replaceSuperExpressions\<close> (lines 63 to 74): an expression statement
  whose expression is a call, whose callee is a member expression, whose property is
  an identifier named \<^verbatim>\<open>_super\<close>. The filter names no other field: the receiver and
  the \<^verbatim>\<open>computed\<close> flag are free.
\<close>

fun isSuperCall :: "expr \<Rightarrow> bool" where
  "isSuperCall (CallExpression (MemberExpression obj (Identifier n) c) args) = (n = ''_super'')"
| "isSuperCall _ = False"

text \<open>
  \<^verbatim>\<open>j(node).find(j.ExpressionStatement, filter)\<close> visits every descendant in pre-order,
  descends below a match as well, and collects the matching statements.
\<close>

fun find_expr :: "expr \<Rightarrow> stmt list"
  and find_stmt :: "stmt \<Rightarrow> stmt list"
  and find_property :: "property \<Rightarrow> stmt list" where
  "find_expr ThisExpression = []"
| "find_expr Super = []"
| "find_expr (Identifier n) = []"
| "find_expr (Literal v) = []"
| "find_expr (CallExpression f args) = find_expr f @ concat (map find_expr args)"
| "find_expr (MemberExpression obj p c) = find_expr obj @ find_expr p"
| "find_expr (BinaryExpression opr l r) = find_expr l @ find_expr r"
| "find_expr (AssignmentExpression opr l r) = find_expr l @ find_expr r"
| "find_expr (FunctionExpression i ps b) =
     (case i of None \<Rightarrow> [] | Some n \<Rightarrow> find_expr n) @ concat (map find_expr ps) @ find_stmt b"
| "find_expr (ObjectExpression ps) = concat (map find_property ps)"
| "find_stmt (ExpressionStatement e cm) =
     (if isSuperCall e then [ExpressionStatement e cm] else []) @ find_expr e"
| "find_stmt (BlockStatement ss) = concat (map find_stmt ss)"
| "find_stmt (IfStatement c t e) =
     find_expr c @ find_stmt t @ (case e of None \<Rightarrow> [] | Some s \<Rightarrow> find_stmt s)"
| "find_stmt (WhileStatement c b) = find_expr c @ find_stmt b"
| "find_stmt (ReturnStatement e) = (case e of None \<Rightarrow> [] | Some x \<Rightarrow> find_expr x)"
| "find_property (Property k key v cm) = find_expr key @ find_expr v"

text \<open>
  \<^verbatim>\<open>superExprs.forEach(superExpr => j(superExpr).replaceWith(superMethodCall))\<close>, lines
  79 to 88, replaces every collected statement in place by a fresh expression
  statement that calls the member \<^verbatim>\<open>key\<close> of \<^verbatim>\<open>super\<close>, built by
  \<^verbatim>\<open>j.memberExpression(j.super(), methodDefinition.key)\<close>. The fresh statement has no
  comments, and its argument list is the very array of the replaced call: a match found
  inside those arguments is later replaced inside the fresh statement as well, since
  its path still points into the shared array. The net effect on the tree is the
  recursion below.
\<close>

fun replace_expr :: "expr \<Rightarrow> expr \<Rightarrow> expr"
  and replace_stmt :: "expr \<Rightarrow> stmt \<Rightarrow> stmt"
  and replace_property :: "expr \<Rightarrow> property \<Rightarrow> property" where
  "replace_expr k ThisExpression = ThisExpression"
| "replace_expr k Super = Super"
| "replace_expr k (Identifier n) = Identifier n"
| "replace_expr k (Literal v) = Literal v"
| "replace_expr k (CallExpression f args) =
     CallExpression (replace_expr k f) (map (replace_expr k) args)"
| "replace_expr k (MemberExpression obj p c) =
     MemberExpression (replace_expr k obj) (replace_expr k p) c"
| "replace_expr k (BinaryExpression opr l r) =
     BinaryExpression opr (replace_expr k l) (replace_expr k r)"
| "replace_expr k (AssignmentExpression opr l r) =
     AssignmentExpression opr (replace_expr k l) (replace_expr k r)"
| "replace_expr k (FunctionExpression i ps b) =
     FunctionExpression (map_option (replace_expr k) i) (map (replace_expr k) ps)
       (replace_stmt k b)"
| "replace_expr k (ObjectExpression ps) = ObjectExpression (map (replace_property k) ps)"
| "replace_stmt k (ExpressionStatement (CallExpression (MemberExpression obj (Identifier n) c) args) cm) =
     (if n = ''_super''
      then ExpressionStatement
             (CallExpression (memberExpression Super k) (map (replace_expr k) args)) None
      else ExpressionStatement
             (CallExpression (MemberExpression (replace_expr k obj) (Identifier n) c)
                (map (replace_expr k) args)) cm)"
| "replace_stmt k (ExpressionStatement e cm) = ExpressionStatement (replace_expr k e) cm"
| "replace_stmt k (BlockStatement ss) = BlockStatement (map (replace_stmt k) ss)"
| "replace_stmt k (IfStatement c t e) =
     IfStatement (replace_expr k c) (replace_stmt k t) (map_option (replace_stmt k) e)"
| "replace_stmt k (WhileStatement c b) = WhileStatement (replace_expr k c) (replace_stmt k b)"
| "replace_stmt k (ReturnStatement e) = ReturnStatement (map_option (replace_expr k) e)"
| "replace_property k (Property kd key v cm) =
     Property kd (replace_expr k key) (replace_expr k v) cm"

section \<open>Properties, members and collaborators\<close>

text \<open>
  \<^verbatim>\<open>EOProp\<close>, the legacy property handed over by the parser. The helper reads the
  fields below, and \<^verbatim>\<open>callExprArgs\<close>.
\<close>

record eoProp =
  eo_key :: expr
  eo_value :: expr
  eo_kind :: string
  eo_type :: string
  eo_computed :: bool
  eo_name :: string
  eo_comments :: comments
  eo_isClassDecorator :: bool
  eo_isCallExpression :: bool

text \<open>
  Modelled from the spec: the parser that fills \<^verbatim>\<open>callExprArgs\<close> is missing from
  \<^verbatim>\<open>src/\<close>. The field is "present only when type is call-expression-valued" and holds
  the "ordered argument list of the original call": it is the array
  \<^verbatim>\<open>value.arguments\<close> of the call expression that is the property's value, and it is
  absent when the value is no call. Its elements are the argument nodes themselves, so
  that a write into the last argument is a write into \<^verbatim>\<open>value\<close>: \<open>writeLastArg\<close> is
  the property after such a write.
\<close>

definition callExprArgs :: "eoProp \<Rightarrow> expr list option" where
  "callExprArgs p = (case eo_value p of CallExpression f args \<Rightarrow> Some args | _ \<Rightarrow> None)"

definition writeLastArg :: "eoProp \<Rightarrow> expr \<Rightarrow> eoProp" where
  "writeLastArg p a =
     (case eo_value p of
        CallExpression f args \<Rightarrow> p\<lparr>eo_value := CallExpression f (butlast args @ [a])\<rparr>
      | _ \<Rightarrow> p)"

text \<open>
  What \<^verbatim>\<open>createMethodProp\<close> reads of its argument \<^verbatim>\<open>functionProp\<close>: it is called with
  an \<^verbatim>\<open>EOProp\<close>, with an entry of an object expression and with the object literal of
  lines 211 to 216.
\<close>

record functionProp =
  fp_kind :: string
  fp_key :: expr
  fp_value :: expr
  fp_comments :: comments

definition functionProp_of_eoProp :: "eoProp \<Rightarrow> functionProp" where
  "functionProp_of_eoProp p =
     \<lparr>fp_kind = eo_kind p, fp_key = eo_key p, fp_value = eo_value p,
      fp_comments = eo_comments p\<rparr>"

definition functionProp_of_property :: "property \<Rightarrow> functionProp" where
  "functionProp_of_property a =
     \<lparr>fp_kind = prop_kind a, fp_key = prop_key a, fp_value = prop_value a,
      fp_comments = prop_comments a\<rparr>"

definition property_of_functionProp :: "functionProp \<Rightarrow> property" where
  "property_of_functionProp f = Property (fp_kind f) (fp_key f) (fp_value f) (fp_comments f)"

text \<open>
  The members of a class body. Fields the helper never sets (\<^verbatim>\<open>static\<close>, the type
  annotation) are left out.
\<close>

record methodDefinition =
  md_kind :: string
  md_key :: expr
  md_value :: expr
  md_comments :: comments
  md_decorators :: "decorator list"

record classProperty =
  cp_key :: expr
  cp_value :: "expr option"
  cp_computed :: bool
  cp_comments :: comments
  cp_decorators :: "decorator list"

datatype member = Method methodDefinition | Field classProperty

record classDeclaration =
  cd_id :: "expr option"
  cd_body :: "member list"
  cd_superClass :: expr
  cd_decorators :: "decorator list"

text \<open>
  \<^verbatim>\<open>j.methodDefinition(kind, key, value)\<close> checks its arguments against the types of
  the fields: \<^verbatim>\<open>kind\<close> is one of \<^verbatim>\<open>constructor\<close>, \<^verbatim>\<open>method\<close>, \<^verbatim>\<open>get\<close>, \<^verbatim>\<open>set\<close>, the key
  is an expression and the value is a function. It throws otherwise. The method it
  builds has no comments and no decorators. \<^verbatim>\<open>j.classProperty(key, value, null)\<close> takes
  any expression as key and any expression or null as value.
\<close>

fun isFunctionExpression :: "expr \<Rightarrow> bool" where
  "isFunctionExpression (FunctionExpression i ps b) = True"
| "isFunctionExpression _ = False"

definition validKind :: "string \<Rightarrow> bool" where
  "validKind k = (k = ''constructor'' \<or> k = ''method'' \<or> k = ''get'' \<or> k = ''set'')"

definition j_methodDefinition :: "string \<Rightarrow> expr \<Rightarrow> expr \<Rightarrow> error + methodDefinition" where
  "j_methodDefinition kind key v =
     (if validKind kind \<and> isFunctionExpression v
      then Inr \<lparr>md_kind = kind, md_key = key, md_value = v, md_comments = None,
                md_decorators = []\<rparr>
      else Inl BuilderError)"

text \<open>
  The functions the helper imports from \<^verbatim>\<open>./util\<close> and \<^verbatim>\<open>./decorator-helper\<close>, which
  decide names, initialisers and decorators. Their code is not under \<^verbatim>\<open>src/\<close>; they
  are parameters of the model, taken as pure functions of the property they are given.
\<close>

record helpers =
  getPropName :: "property \<Rightarrow> string"
  shouldSetValue :: "eoProp \<Rightarrow> bool"
  createInstancePropDecorators :: "eoProp \<Rightarrow> decorator list"
  createActionDecorators :: "decorator list"
  createClassDecorator :: "eoProp \<Rightarrow> decorator"

text \<open>
  Modelled from the spec: \<^verbatim>\<open>withDecorators\<close> of \<^verbatim>\<open>./decorator-helper\<close> is missing
  from \<^verbatim>\<open>src/\<close>. "Decorators, if provided, are attached in the given order": the node
  gets the list as its decorators.
\<close>

definition withDecorators_md :: "methodDefinition \<Rightarrow> decorator list \<Rightarrow> methodDefinition" where
  "withDecorators_md to decorators = to\<lparr>md_decorators := decorators\<rparr>"

definition withDecorators_cp :: "classProperty \<Rightarrow> decorator list \<Rightarrow> classProperty" where
  "withDecorators_cp to decorators = to\<lparr>cp_decorators := decorators\<rparr>"

definition withDecorators_cd :: "classDeclaration \<Rightarrow> decorator list \<Rightarrow> classDeclaration" where
  "withDecorators_cd to decorators = to\<lparr>cd_decorators := decorators\<rparr>"

text \<open>
  \<^verbatim>\<open>withComments(to, from)\<close>, lines 16 to 19: \<^verbatim>\<open>to.comments = from.comments\<close>. The second
  argument of the model is \<^verbatim>\<open>from.comments\<close>. With \<^verbatim>\<open>to\<close> undefined the assignment
  throws; the one call where that can happen (line 233) is written out there.
\<close>

definition withComments_md :: "methodDefinition \<Rightarrow> comments \<Rightarrow> methodDefinition" where
  "withComments_md to cm = to\<lparr>md_comments := cm\<rparr>"

definition withComments_cp :: "classProperty \<Rightarrow> comments \<Rightarrow> classProperty" where
  "withComments_cp to cm = to\<lparr>cp_comments := cm\<rparr>"

fun withComments_stmt :: "stmt \<Rightarrow> comments \<Rightarrow> stmt" where
  "withComments_stmt (ExpressionStatement e c) cm = ExpressionStatement e cm"
| "withComments_stmt s cm = s"

section \<open>The synthesizers\<close>

definition instancePropsToExpressions :: "eoProp list \<Rightarrow> stmt list" where
  "instancePropsToExpressions instanceProps =
     map (\<lambda>instanceProp.
            withComments_stmt
              (ExpressionStatement
                 (AssignmentExpression ''=''
                    (memberExpression ThisExpression (eo_key instanceProp))
                    (eo_value instanceProp))
                 None)
              (eo_comments instanceProp))
         instanceProps"

definition createSuperExpressionStatement :: stmt where
  "createSuperExpressionStatement = ExpressionStatement (CallExpression Super []) None"

text \<open>
  \<^verbatim>\<open>replaceSuperExpressions\<close>, lines 62 to 91. The search starts at the method
  definition, whose children are the key and the function. A match inside the function
  is replaced as \<open>replace_expr\<close> says. A match inside the key (a statement of a function
  that is part of a computed key) would be replaced by a statement that holds
  \<^verbatim>\<open>methodDefinition.key\<close> (line 83), the key spliced into itself: a cyclic tree, which
  no value of \<open>expr\<close> stands for. The model leaves the key as it is; what it gives for
  such a key is not the program's result, and every theorem that speaks of a rewritten
  method assumes a key that holds no match.
\<close>

definition replaceSuperExpressions :: "methodDefinition \<Rightarrow> methodDefinition" where
  "replaceSuperExpressions methodDefinition =
     (let superExprs = find_expr (md_key methodDefinition) @ find_expr (md_value methodDefinition)
      in if length superExprs = 0 then methodDefinition
         else methodDefinition\<lparr>md_value :=
                replace_expr (md_key methodDefinition) (md_value methodDefinition)\<rparr>)"

text \<open>
  \<^verbatim>\<open>createMethodProp\<close>, lines 103 to 115. \<open>propKind\<close> is line 104. The method is built
  around \<^verbatim>\<open>functionProp.value\<close> itself, and the rewriting happens inside that node: the
  second component is \<^verbatim>\<open>functionProp\<close> as the call leaves it.
\<close>

definition propKind :: "string \<Rightarrow> string" where
  "propKind kind = (if kind = ''init'' then ''method'' else kind)"

definition createMethodProp ::
  "functionProp \<Rightarrow> decorator list \<Rightarrow> error + (methodDefinition \<times> functionProp)" where
  "createMethodProp functionProp decorators =
     (case j_methodDefinition (propKind (fp_kind functionProp)) (fp_key functionProp)
             (fp_value functionProp) of
        Inl e \<Rightarrow> Inl e
      | Inr built \<Rightarrow>
          (let md = replaceSuperExpressions built
           in Inr (withDecorators_md (withComments_md md (fp_comments functionProp)) decorators,
                   functionProp\<lparr>fp_value := md_value md\<rparr>)))"

definition createConstructor :: "eoProp list \<Rightarrow> error + methodDefinition list" where
  "createConstructor instanceProps =
     (if length instanceProps \<noteq> 0 then
        (case j_methodDefinition ''constructor'' (Identifier ''constructor'')
                (FunctionExpression None []
                   (BlockStatement
                      ([createSuperExpressionStatement]
                       @ instancePropsToExpressions instanceProps))) of
           Inl e \<Rightarrow> Inl e
         | Inr m \<Rightarrow> Inr [m])
      else Inr [])"

definition createClassProp :: "helpers \<Rightarrow> eoProp \<Rightarrow> classProperty" where
  "createClassProp h instanceProp =
     (let decorators = createInstancePropDecorators h instanceProp;
          classProp = withDecorators_cp
            (withComments_cp
               \<lparr>cp_key = eo_key instanceProp,
                cp_value = (if shouldSetValue h instanceProp
                            then Some (eo_value instanceProp) else None),
                cp_computed = False, cp_comments = None, cp_decorators = []\<rparr>
               (eo_comments instanceProp))
            decorators
      in classProp\<lparr>cp_computed := eo_computed instanceProp\<rparr>)"

text \<open>
  \<^verbatim>\<open>Array.prototype.map\<close> with a callback that may throw: the first exception ends
  the whole call.
\<close>

fun map_error :: "('a \<Rightarrow> error + 'b) \<Rightarrow> 'a list \<Rightarrow> error + 'b list" where
  "map_error f [] = Inr []"
| "map_error f (x # xs) =
     (case f x of
        Inl e \<Rightarrow> Inl e
      | Inr y \<Rightarrow> (case map_error f xs of Inl e \<Rightarrow> Inl e | Inr ys \<Rightarrow> Inr (y # ys)))"

text \<open>
  \<^verbatim>\<open>createActionDecoratedProps\<close>, lines 190 to 196. \<^verbatim>\<open>get(actionsProp,
  "value.properties")\<close> is undefined unless the value is an object expression, and
  \<^verbatim>\<open>.map\<close> on undefined throws. Each entry is rewritten in place by
  \<^verbatim>\<open>createMethodProp\<close>; the second component is \<^verbatim>\<open>actionsProp\<close> afterwards.
\<close>

definition createActionDecoratedProps ::
  "helpers \<Rightarrow> eoProp \<Rightarrow> error + (methodDefinition list \<times> eoProp)" where
  "createActionDecoratedProps h actionsProp =
     (case eo_value actionsProp of
        ObjectExpression actionProps \<Rightarrow>
          (let actionDecorators = createActionDecorators h
           in case map_error
                     (\<lambda>actionProp.
                        createMethodProp (functionProp_of_property actionProp) actionDecorators)
                     actionProps of
                Inl e \<Rightarrow> Inl e
              | Inr rs \<Rightarrow>
                  Inr (map fst rs,
                       actionsProp\<lparr>eo_value :=
                         ObjectExpression (map (\<lambda>r. property_of_functionProp (snd r)) rs)\<rparr>))
      | _ \<Rightarrow> Inl TypeError)"

text \<open>
  The callback of lines 225 to 230, for one entry \<^verbatim>\<open>callExprFunction\<close> of the object
  expression. It overwrites the entry's \<^verbatim>\<open>kind\<close> and \<^verbatim>\<open>key\<close>, then shifts
  \<^verbatim>\<open>value.params\<close>, which throws when the value has no parameter list, that is when
  it is not a function. \<^verbatim>\<open>shift\<close> on an empty list leaves it empty, as \<open>tl\<close> does.
  The result is the method together with the entry as the callback leaves it.
\<close>

definition callExprMethod ::
  "helpers \<Rightarrow> eoProp \<Rightarrow> property \<Rightarrow> error + (methodDefinition \<times> property)" where
  "callExprMethod h callExprProp callExprFunction =
     (case prop_value callExprFunction of
        FunctionExpression i params body \<Rightarrow>
          (case createMethodProp
                  \<lparr>fp_kind = getPropName h callExprFunction,
                   fp_key = eo_key callExprProp,
                   fp_value = FunctionExpression i (tl params) body,
                   fp_comments = prop_comments callExprFunction\<rparr> [] of
             Inl e \<Rightarrow> Inl e
           | Inr r \<Rightarrow> Inr (fst r, property_of_functionProp (snd r)))
      | _ \<Rightarrow> Inl TypeError)"

text \<open>
  Modelled from the spec: \<^verbatim>\<open>get\<close> of \<^verbatim>\<open>./util\<close> is missing from \<^verbatim>\<open>src/\<close>. It is the
  safe path lookup: on an absent object it yields undefined, so that
  \<^verbatim>\<open>get(callExprLastArg, "type")\<close> of an empty argument list is undefined and line 237
  is reached ("an unrecognized call-expression shape degrades gracefully to a plain
  field").

  \<^verbatim>\<open>createCallExpressionProp\<close>, lines 205 to 240. \<^verbatim>\<open>callExprArgs.slice(0)\<close> throws when
  the field is absent; it copies the array and not the nodes. \<^verbatim>\<open>pop\<close> of the copy
  yields the last argument, or undefined for an empty list. In the function branch the
  decorators are computed before \<^verbatim>\<open>createMethodProp\<close> runs (they are an argument of the
  call); in the object branch after the entries were overwritten.
  \<^verbatim>\<open>callExprMethods[0]\<close> of an empty array is undefined, and \<^verbatim>\<open>withComments\<close> throws on
  it. The second component is \<^verbatim>\<open>callExprProp\<close> as the call leaves it.
\<close>

definition createCallExpressionProp ::
  "helpers \<Rightarrow> eoProp \<Rightarrow> error + (member list \<times> eoProp)" where
  "createCallExpressionProp h callExprProp =
     (case callExprArgs callExprProp of
        None \<Rightarrow> Inl TypeError
      | Some args \<Rightarrow>
          (case (if args = [] then None else Some (last args)) of
             Some (FunctionExpression i params body) \<Rightarrow>
               (let functionExpr =
                      \<lparr>fp_kind = eo_kind callExprProp, fp_key = eo_key callExprProp,
                       fp_value = FunctionExpression i params body,
                       fp_comments = eo_comments callExprProp\<rparr>
                in case createMethodProp functionExpr
                          (createInstancePropDecorators h callExprProp) of
                     Inl e \<Rightarrow> Inl e
                   | Inr r \<Rightarrow>
                       Inr ([Method (fst r)], writeLastArg callExprProp (fp_value (snd r))))
           | Some (ObjectExpression properties) \<Rightarrow>
               (case map_error (callExprMethod h callExprProp) properties of
                  Inl e \<Rightarrow> Inl e
                | Inr rs \<Rightarrow>
                    (let after = writeLastArg callExprProp (ObjectExpression (map snd rs))
                     in case map fst rs of
                          [] \<Rightarrow> Inl TypeError
                        | first # others \<Rightarrow>
                            Inr (map Method
                                   (withDecorators_md
                                      (withComments_md first (eo_comments callExprProp))
                                      (createInstancePropDecorators h after)
                                    # others),
                                 after)))
           | _ \<Rightarrow> Inr ([Field (createClassProp h callExprProp)], callExprProp)))"

definition createSuperClassExpression :: "string \<Rightarrow> expr list \<Rightarrow> expr" where
  "createSuperClassExpression superClassName mixins =
     (if length mixins > 0 then
        CallExpression
          (memberExpression (Identifier superClassName) (Identifier ''extend'')) mixins
      else Identifier superClassName)"

text \<open>
  The body of the \<^verbatim>\<open>forEach\<close> of \<^verbatim>\<open>createClass\<close>, lines 282 to 292, for one property:
  the members it adds to \<^verbatim>\<open>classBody\<close>, the decorators it adds to
  \<^verbatim>\<open>classDecorators\<close>, and the property as the step leaves it.
\<close>

definition classStep ::
  "helpers \<Rightarrow> eoProp \<Rightarrow> error + (member list \<times> decorator list \<times> eoProp)" where
  "classStep h prop =
     (if eo_isClassDecorator prop then Inr ([], [createClassDecorator h prop], prop)
      else if eo_type prop = ''FunctionExpression'' then
        (case createMethodProp (functionProp_of_eoProp prop) [] of
           Inl e \<Rightarrow> Inl e
         | Inr r \<Rightarrow> Inr ([Method (fst r)], [], prop\<lparr>eo_value := fp_value (snd r)\<rparr>))
      else if eo_isCallExpression prop then
        (case createCallExpressionProp h prop of
           Inl e \<Rightarrow> Inl e
         | Inr (ms, prop') \<Rightarrow> Inr (ms, [], prop'))
      else if eo_name prop = ''actions'' then
        (case createActionDecoratedProps h prop of
           Inl e \<Rightarrow> Inl e
         | Inr (ms, prop') \<Rightarrow> Inr (map Method ms, [], prop'))
      else Inr ([Field (createClassProp h prop)], [], prop))"

text \<open>
  The \<^verbatim>\<open>forEach\<close> itself, with the two accumulators of lines 279 and 280 and the
  properties already visited.
\<close>

fun classLoop ::
  "helpers \<Rightarrow> eoProp list \<Rightarrow> member list \<Rightarrow> decorator list \<Rightarrow> eoProp list
   \<Rightarrow> error + (member list \<times> decorator list \<times> eoProp list)" where
  "classLoop h [] classBody classDecorators seen = Inr (classBody, classDecorators, seen)"
| "classLoop h (prop # rest) classBody classDecorators seen =
     (case classStep h prop of
        Inl e \<Rightarrow> Inl e
      | Inr (ms, ds, prop') \<Rightarrow>
          classLoop h rest (classBody @ ms) (classDecorators @ ds) (seen @ [prop']))"

text \<open>
  \<^verbatim>\<open>createClass\<close>, lines 272 to 302. An empty \<^verbatim>\<open>className\<close> is falsy and gives the
  anonymous class. The second component is the list of input properties after the
  call.
\<close>

definition createClass ::
  "helpers \<Rightarrow> string \<Rightarrow> eoProp list \<Rightarrow> string \<Rightarrow> expr list
   \<Rightarrow> error + (classDeclaration \<times> eoProp list)" where
  "createClass h className instanceProps superClassName mixins =
     (case classLoop h instanceProps [] [] [] of
        Inl e \<Rightarrow> Inl e
      | Inr (classBody, classDecorators, after) \<Rightarrow>
          Inr (withDecorators_cd
                 \<lparr>cd_id = (if className \<noteq> [] then Some (Identifier className) else None),
                  cd_body = classBody,
                  cd_superClass = createSuperClassExpression superClassName mixins,
                  cd_decorators = []\<rparr>
                 classDecorators,
               after))"

section \<open>Readers and sample inputs\<close>

text \<open>
  \<^verbatim>\<open>get(superExpr, "value.expression.arguments") || []\<close>, line 80, and the comments of
  a statement.
\<close>

fun callArguments :: "expr \<Rightarrow> expr list" where
  "callArguments (CallExpression f args) = args"
| "callArguments _ = []"

fun stmt_comments :: "stmt \<Rightarrow> comments" where
  "stmt_comments (ExpressionStatement e cm) = cm"
| "stmt_comments _ = None"

text \<open>
  What line 228 makes of the value of an entry that is a function: the parameter list
  without its first element.
\<close>

fun shiftParams :: "expr \<Rightarrow> expr" where
  "shiftParams (FunctionExpression i ps b) = FunctionExpression i (tl ps) b"
| "shiftParams e = e"

text \<open>
  The entries the two expanders turn into methods. An entry of a call-expression
  property passes line 228 and the check of the method builder when its value is a
  function and the name \<^verbatim>\<open>getPropName\<close> gives it is a kind of method (\<^verbatim>\<open>init\<close> counting
  as \<^verbatim>\<open>method\<close>). An entry of an action hash passes the check of the method builder
  when its value is a function and its own kind is a kind of method; its key is the key
  of the method, which is to hold no delegation statement.
\<close>

definition methodEntry :: "helpers \<Rightarrow> property \<Rightarrow> bool" where
  "methodEntry h e =
     (isFunctionExpression (prop_value e) \<and> validKind (propKind (getPropName h e)))"

definition actionEntry :: "property \<Rightarrow> bool" where
  "actionEntry a =
     (isFunctionExpression (prop_value a) \<and> validKind (propKind (prop_kind a))
      \<and> find_expr (prop_key a) = [])"

text \<open>
  An entry whose value is a function, as the callback of lines 225 to 230 leaves it:
  \<^verbatim>\<open>kind\<close> and \<^verbatim>\<open>key\<close> overwritten, the first parameter gone, the delegation
  statements of the body replaced. The method the callback returns for it, before line
  232 touches the first one. An entry of an action hash as \<^verbatim>\<open>createMethodProp\<close> leaves
  it.
\<close>

definition overwritten :: "helpers \<Rightarrow> eoProp \<Rightarrow> property \<Rightarrow> property" where
  "overwritten h callExprProp e =
     Property (getPropName h e) (eo_key callExprProp)
       (replace_expr (eo_key callExprProp) (shiftParams (prop_value e))) (prop_comments e)"

definition entryMethod :: "helpers \<Rightarrow> eoProp \<Rightarrow> property \<Rightarrow> methodDefinition" where
  "entryMethod h callExprProp e =
     \<lparr>md_kind = propKind (getPropName h e),
      md_key = eo_key callExprProp,
      md_value = replace_expr (eo_key callExprProp) (shiftParams (prop_value e)),
      md_comments = prop_comments e, md_decorators = []\<rparr>"

definition rewrittenEntry :: "property \<Rightarrow> property" where
  "rewrittenEntry a =
     Property (prop_kind a) (prop_key a) (replace_expr (prop_key a) (prop_value a))
       (prop_comments a)"

fun member_key :: "member \<Rightarrow> expr" where
  "member_key (Method m) = md_key m"
| "member_key (Field f) = cp_key f"

fun member_comments :: "member \<Rightarrow> comments" where
  "member_comments (Method m) = md_comments m"
| "member_comments (Field f) = cp_comments f"

text \<open>The statement \<^verbatim>\<open>this._super(<args>);\<close>, the statement \<^verbatim>\<open>super.<name>(<args>);\<close>
  and the function \<^verbatim>\<open>function (<params>) { <body> }\<close>.\<close>

definition thisSuper :: "expr list \<Rightarrow> stmt" where
  "thisSuper args =
     ExpressionStatement
       (CallExpression (MemberExpression ThisExpression (Identifier ''_super'') False) args) None"

definition superCall :: "string \<Rightarrow> expr list \<Rightarrow> stmt" where
  "superCall n args =
     ExpressionStatement
       (CallExpression (MemberExpression Super (Identifier n) False) args) None"

definition func :: "string list \<Rightarrow> stmt list \<Rightarrow> expr" where
  "func params body = FunctionExpression None (map Identifier params) (BlockStatement body)"

definition sampleMethod :: "string \<Rightarrow> stmt list \<Rightarrow> methodDefinition" where
  "sampleMethod n body =
     \<lparr>md_kind = ''method'', md_key = Identifier n, md_value = func [] body,
      md_comments = None, md_decorators = []\<rparr>"

text \<open>
  Modelled from the spec: one instance of the collaborators, to run the synthesizers
  on sample inputs. \<^verbatim>\<open>getPropName\<close> gives "the entry's own name", the name of an
  identifier key; every value is set on its field; a call-expression property gets
  one decorator, an action gets \<^verbatim>\<open>@action\<close>, and a class decorator is named by the
  property's key.
\<close>

definition sampleHelpers :: helpers where
  "sampleHelpers =
     \<lparr>getPropName = (\<lambda>p. case prop_key p of Identifier n \<Rightarrow> n | _ \<Rightarrow> []),
      shouldSetValue = (\<lambda>p. True),
      createInstancePropDecorators =
        (\<lambda>p. if eo_isCallExpression p then [Decorator (Identifier ''computed'')] else []),
      createActionDecorators = [Decorator (Identifier ''action'')],
      createClassDecorator = (\<lambda>p. Decorator (eo_key p))\<rparr>"

text \<open>A plain property \<^verbatim>\<open>name: value\<close> of kind \<^verbatim>\<open>init\<close> with the given comments.\<close>

definition plainProp :: "string \<Rightarrow> expr \<Rightarrow> comments \<Rightarrow> eoProp" where
  "plainProp n v cm =
     \<lparr>eo_key = Identifier n, eo_value = v, eo_kind = ''init'', eo_type = ''Literal'',
      eo_computed = False, eo_name = n, eo_comments = cm,
      eo_isClassDecorator = False, eo_isCallExpression = False\<rparr>"

text \<open>A call-expression property \<^verbatim>\<open>name: computed(<args>)\<close>.\<close>

definition callProp :: "string \<Rightarrow> expr list \<Rightarrow> comments \<Rightarrow> eoProp" where
  "callProp n args cm =
     \<lparr>eo_key = Identifier n, eo_value = CallExpression (Identifier ''computed'') args,
      eo_kind = ''init'', eo_type = ''CallExpression'', eo_computed = False, eo_name = n,
      eo_comments = cm, eo_isClassDecorator = False, eo_isCallExpression = True\<rparr>"

text \<open>
  One property for each branch of the class assembler: a class decorator, a method
  that delegates to its superclass, a computed property with a getter and a setter, an
  action hash, and a plain field.
\<close>

definition sampleDecorator :: eoProp where
  "sampleDecorator = (plainProp ''tagName'' (Literal ''div'') None)\<lparr>eo_isClassDecorator := True\<rparr>"

definition sampleFunction :: eoProp where
  "sampleFunction =
     (plainProp ''init'' (func [] [thisSuper [Identifier ''arguments'']]) (Some [''// set up'']))
       \<lparr>eo_type := ''FunctionExpression''\<rparr>"

definition sampleEntries :: "property list" where
  "sampleEntries =
     [Property ''init'' (Identifier ''get'') (func [''key''] [thisSuper []]) (Some [''// g'']),
      Property ''init'' (Identifier ''set'') (func [''key'', ''v''] []) (Some [''// s''])]"

definition sampleAccessors :: eoProp where
  "sampleAccessors =
     callProp ''full'' [Literal ''first'', ObjectExpression sampleEntries] (Some [''// full''])"

definition sampleActionEntries :: "property list" where
  "sampleActionEntries =
     [Property ''init'' (Identifier ''save'') (func [] [thisSuper []]) (Some [''// save'']),
      Property ''init'' (Identifier ''cancel'') (func [] []) None]"

definition sampleActions :: eoProp where
  "sampleActions =
     plainProp ''actions'' (ObjectExpression sampleActionEntries) (Some [''// handlers''])"

definition samplePlain :: eoProp where
  "samplePlain = plainProp ''title'' (Literal ''x'') (Some [''// title''])"

section \<open>The delegation rewriter: what it replaces\<close>

lemma replace_stmt_ExpressionStatement:
  "replace_stmt k (ExpressionStatement e cm) =
     (if isSuperCall e
      then ExpressionStatement
             (CallExpression (memberExpression Super k)
                (map (replace_expr k) (callArguments e))) None
      else ExpressionStatement (replace_expr k e) cm)"
  by (induction e rule: isSuperCall.induct) simp_all

lemma isSuperCall_shape:
  "isSuperCall e \<Longrightarrow>
     \<exists>obj c args. e = CallExpression (MemberExpression obj (Identifier ''_super'') c) args"
  by (induction e rule: isSuperCall.induct) simp_all

lemma isSuperCall_replace_expr [simp]: "isSuperCall (replace_expr k e) = isSuperCall e"
  by (induction e rule: isSuperCall.induct) simp_all


text \<open>A tree that holds no match is left as it is, so the early return of line 77 is
  the general case at such a tree.\<close>

lemma replace_unmatched:
  "find_expr e = [] \<longrightarrow> replace_expr k e = e"
  "find_stmt s = [] \<longrightarrow> replace_stmt k s = s"
  "find_property p = [] \<longrightarrow> replace_property k p = p"
proof (induction e and s and p)
  case (ExpressionStatement e cm)
  then show ?case
    by (simp add: replace_stmt_ExpressionStatement del: replace_stmt.simps)
qed (auto simp: map_idI option.map_ident_strong split: option.splits)

lemma replaceSuperExpressions_eq:
  "find_expr (md_key md) = [] \<Longrightarrow>
     replaceSuperExpressions md = md\<lparr>md_value := replace_expr (md_key md) (md_value md)\<rparr>"
  by (simp add: replaceSuperExpressions_def Let_def replace_unmatched(1))

lemma replace_idem:
  assumes k: "replace_expr k k = k"
  shows "replace_expr k (replace_expr k e) = replace_expr k e"
    and "replace_stmt k (replace_stmt k s) = replace_stmt k s"
    and "replace_property k (replace_property k p) = replace_property k p"
proof (induction e and s and p)
  case (ExpressionStatement e cm)
  show ?case
  proof (cases "isSuperCall e")
    case True
    then obtain obj c args
      where e: "e = CallExpression (MemberExpression obj (Identifier ''_super'') c) args"
      using isSuperCall_shape by blast
    from ExpressionStatement
    have "map (replace_expr k \<circ> replace_expr k) args = map (replace_expr k) args"
      by (simp add: e)
    then show ?thesis using k
      by (simp add: e replace_stmt_ExpressionStatement memberExpression_def
          del: replace_stmt.simps)
  next
    case False
    with ExpressionStatement show ?thesis
      by (simp add: replace_stmt_ExpressionStatement del: replace_stmt.simps)
  qed
qed (auto simp: option.map_comp intro!: option.map_cong)


text \<open>
  C9. Running the delegation rewriter on its own output changes nothing, whenever the
  key of the method holds no matching statement (an identifier or a literal, for
  one). The method may be named \<^verbatim>\<open>_super\<close> itself: then the rewritten statements
  match again and are rebuilt as they are.
\<close>

theorem replaceSuperExpressions_idempotent:
  assumes "find_expr (md_key md) = []"
  shows "replaceSuperExpressions (replaceSuperExpressions md) = replaceSuperExpressions md"
proof -
  from assms have "replace_expr (md_key md) (md_key md) = md_key md"
    by (simp add: replace_unmatched(1))
  with assms show ?thesis
    by (simp add: replaceSuperExpressions_eq replace_idem(1))
qed

theorem replaceSuperExpressions_idempotent_witness:
  "find_expr (md_key (sampleMethod ''_super''
       [IfStatement (Identifier ''c'') (thisSuper [func [] [thisSuper []]]) None])) = []
   \<and> replaceSuperExpressions (replaceSuperExpressions (sampleMethod ''_super''
       [IfStatement (Identifier ''c'') (thisSuper [func [] [thisSuper []]]) None]))
     = sampleMethod ''_super''
         [IfStatement (Identifier ''c'')
            (superCall ''_super'' [func [] [superCall ''_super'' []]]) None]"
  using replaceSuperExpressions_idempotent
    [of "sampleMethod ''_super''
       [IfStatement (Identifier ''c'') (thisSuper [func [] [thisSuper []]]) None]"]
  by (simp add: sampleMethod_def func_def thisSuper_def superCall_def replaceSuperExpressions_def
      memberExpression_def)




section \<open>Constructor and superclass expression\<close>

text \<open>
  C4. For the empty list the constructor synthesizer gives no constructor. For any other
  list it gives exactly one (the method builder accepts it), whose body is the call
  \<^verbatim>\<open>super()\<close> without arguments followed by one assignment of the property's value to
  the member of \<^verbatim>\<open>this\<close> named by the property's key, per property and in the order
  of the list, each with the comments of its property. The member is \<^verbatim>\<open>this.<key>\<close>
  for an identifier key and \<^verbatim>\<open>this[<key>]\<close> for a literal key.
\<close>

theorem createConstructor_super_then_assignments:
  "createConstructor [] = Inr []
   \<and> (ps \<noteq> [] \<longrightarrow>
        createConstructor ps =
          Inr [\<lparr>md_kind = ''constructor'', md_key = Identifier ''constructor'',
                md_value = FunctionExpression None []
                  (BlockStatement
                     (ExpressionStatement (CallExpression Super []) None
                      # map (\<lambda>p. ExpressionStatement
                                    (AssignmentExpression ''=''
                                       (MemberExpression ThisExpression (eo_key p)
                                          (computedDefault (eo_key p)))
                                       (eo_value p))
                                    (eo_comments p)) ps)),
                md_comments = None, md_decorators = []\<rparr>])"
  by (simp add: createConstructor_def instancePropsToExpressions_def memberExpression_def
      createSuperExpressionStatement_def j_methodDefinition_def validKind_def)

theorem createConstructor_super_then_assignments_witness:
  "[plainProp ''a'' (Literal ''1'') None,
    (plainProp ''foo-bar'' (Literal ''2'') (Some [''// b'']))\<lparr>eo_key := Literal ''foo-bar''\<rparr>] \<noteq> []
   \<and> map_sum id (map md_value) (createConstructor
         [plainProp ''a'' (Literal ''1'') None,
          (plainProp ''foo-bar'' (Literal ''2'') (Some [''// b'']))\<lparr>eo_key := Literal ''foo-bar''\<rparr>])
     = Inr [FunctionExpression None []
          (BlockStatement
             [ExpressionStatement (CallExpression Super []) None,
              ExpressionStatement
                (AssignmentExpression ''=''
                   (MemberExpression ThisExpression (Identifier ''a'') False) (Literal ''1''))
                None,
              ExpressionStatement
                (AssignmentExpression ''=''
                   (MemberExpression ThisExpression (Literal ''foo-bar'') True) (Literal ''2''))
                (Some [''// b''])])]"
  using createConstructor_super_then_assignments
    [of "[plainProp ''a'' (Literal ''1'') None,
          (plainProp ''foo-bar'' (Literal ''2'') (Some [''// b'']))\<lparr>eo_key := Literal ''foo-bar''\<rparr>]"]
  by (simp add: plainProp_def)

text \<open>
  C5, as the code has it. Without mixins the superclass expression is the identifier of
  the given name, whatever the name; with mixins it is the call
  \<^verbatim>\<open>name.extend(mixin1, mixin2, ...)\<close> on the mixins in their order.
\<close>

theorem createSuperClassExpression_cases:
  "createSuperClassExpression superClassName [] = Identifier superClassName
   \<and> createSuperClassExpression superClassName (m # ms) =
       CallExpression
         (MemberExpression (Identifier superClassName) (Identifier ''extend'') False) (m # ms)"
  by (simp add: createSuperClassExpression_def memberExpression_def)

text \<open>
  As the claim states it, the empty name gives null. It gives the identifier whose name
  is empty; no branch of the builder returns null.
\<close>

theorem createSuperClassExpression_empty_name_counterexample:
  "createSuperClassExpression [] [] = Identifier []"
  by (simp add: createSuperClassExpression_def)

section \<open>Methods, actions and call-expression properties\<close>

lemma isFunctionExpression_shape:
  "isFunctionExpression e \<Longrightarrow> \<exists>i ps b. e = FunctionExpression i ps b"
  by (cases e) simp_all

lemma createMethodProp_ok:
  assumes "validKind (propKind (fp_kind fp))" and "isFunctionExpression (fp_value fp)"
    and "find_expr (fp_key fp) = []"
  shows "createMethodProp fp ds =
     Inr (\<lparr>md_kind = propKind (fp_kind fp), md_key = fp_key fp,
           md_value = replace_expr (fp_key fp) (fp_value fp),
           md_comments = fp_comments fp, md_decorators = ds\<rparr>,
          fp\<lparr>fp_value := replace_expr (fp_key fp) (fp_value fp)\<rparr>)"
  using assms
  by (simp add: createMethodProp_def j_methodDefinition_def Let_def replaceSuperExpressions_eq
      withDecorators_md_def withComments_md_def)

lemma createMethodProp_error:
  "\<not> (validKind (propKind (fp_kind fp)) \<and> isFunctionExpression (fp_value fp)) \<Longrightarrow>
     createMethodProp fp ds = Inl BuilderError"
  by (auto simp: createMethodProp_def j_methodDefinition_def)

lemma createMethodProp_Inr:
  assumes "createMethodProp fp ds = Inr (m, fp')"
  shows "validKind (propKind (fp_kind fp)) \<and> isFunctionExpression (fp_value fp)
    \<and> md_kind m = propKind (fp_kind fp) \<and> md_key m = fp_key fp
    \<and> md_comments m = fp_comments fp \<and> md_decorators m = ds
    \<and> fp' = fp\<lparr>fp_value := md_value m\<rparr>"
  using assms
  by (auto simp: createMethodProp_def j_methodDefinition_def Let_def replaceSuperExpressions_def
      withDecorators_md_def withComments_md_def split: if_splits)

text \<open>
  C6, at the inputs where the code fails. A call-expression property whose last argument
  is an object expression without entries makes the handler throw: line 233 writes the
  comments to the first element of an empty array. The neighbouring shapes, an empty
  argument list and a last argument that is neither a function nor an object, reach
  the fallback of line 238 and give a plain field.
\<close>

theorem createCallExpressionProp_empty_object_throws:
  "createCallExpressionProp h (callProp n [ObjectExpression []] cm) = Inl TypeError
   \<and> createCallExpressionProp h (callProp n [Literal ''1'', ObjectExpression []] cm)
       = Inl TypeError
   \<and> createCallExpressionProp h (callProp n [] cm)
       = Inr ([Field (createClassProp h (callProp n [] cm))], callProp n [] cm)
   \<and> createCallExpressionProp h (callProp n [Literal ''1''] cm)
       = Inr ([Field (createClassProp h (callProp n [Literal ''1''] cm))],
              callProp n [Literal ''1''] cm)"
  by (simp add: createCallExpressionProp_def callExprArgs_def callProp_def)

lemma map_error_Inr:
  "list_all (\<lambda>x. f x = Inr (g x)) xs \<Longrightarrow> map_error f xs = Inr (map g xs)"
  by (induction xs) simp_all

lemma map_error_list_all2:
  "map_error f xs = Inr ys \<Longrightarrow> list_all2 (\<lambda>x y. f x = Inr y) xs ys"
proof (induction xs arbitrary: ys)
  case Nil
  then show ?case by simp
next
  case (Cons x xs)
  then show ?case by (auto split: sum.splits)
qed

lemma createActionDecoratedProps_object:
  assumes "eo_value p = ObjectExpression entries" and "list_all actionEntry entries"
  shows "createActionDecoratedProps h p =
     Inr (map (\<lambda>a. \<lparr>md_kind = propKind (prop_kind a), md_key = prop_key a,
                     md_value = replace_expr (prop_key a) (prop_value a),
                     md_comments = prop_comments a,
                     md_decorators = createActionDecorators h\<rparr>) entries,
          p\<lparr>eo_value := ObjectExpression (map rewrittenEntry entries)\<rparr>)"
proof -
  let ?g = "\<lambda>a. (\<lparr>md_kind = propKind (prop_kind a), md_key = prop_key a,
                     md_value = replace_expr (prop_key a) (prop_value a),
                     md_comments = prop_comments a,
                     md_decorators = createActionDecorators h\<rparr>,
                  (functionProp_of_property a)
                    \<lparr>fp_value := replace_expr (prop_key a) (prop_value a)\<rparr>)"
  from assms(2)
  have "list_all (\<lambda>a. createMethodProp (functionProp_of_property a) (createActionDecorators h)
      = Inr (?g a)) entries"
    by (simp add: list_all_iff actionEntry_def createMethodProp_ok functionProp_of_property_def)
  then have "map_error (\<lambda>a. createMethodProp (functionProp_of_property a)
      (createActionDecorators h)) entries = Inr (map ?g entries)"
    by (rule map_error_Inr)
  with assms(1) show ?thesis
    by (simp add: createActionDecoratedProps_def Let_def comp_def rewrittenEntry_def
        functionProp_of_property_def property_of_functionProp_def)
qed

text \<open>
  C8, as the code has it. For a property whose value is an object expression with K
  entries, every entry a function-valued property of kind \<^verbatim>\<open>init\<close>, \<^verbatim>\<open>get\<close> or \<^verbatim>\<open>set\<close>
  (any kind the method builder takes), the action expander gives exactly K methods:
  the i-th has the key of the i-th entry, that entry's function with the delegation
  rewriter applied, that entry's kind (\<^verbatim>\<open>init\<close> becoming \<^verbatim>\<open>method\<close>) and the action
  decorators of the collaborator.
\<close>

theorem createActionDecoratedProps_methods:
  assumes "eo_value actionsProp = ObjectExpression actionProps"
    and "list_all actionEntry actionProps"
  shows "\<exists>ms after.
           createActionDecoratedProps h actionsProp = Inr (ms, after)
           \<and> length ms = length actionProps
           \<and> map md_key ms = map prop_key actionProps
           \<and> map md_value ms =
               map (\<lambda>a. replace_expr (prop_key a) (prop_value a)) actionProps
           \<and> map md_kind ms = map (\<lambda>a. propKind (prop_kind a)) actionProps
           \<and> map md_decorators ms =
               replicate (length actionProps) (createActionDecorators h)"
  using createActionDecoratedProps_object [OF assms, of h]
  by (simp add: comp_def map_replicate_const)

text \<open>
  As the claim states it, every entry of the hash gives a method. The entry
  \<^verbatim>\<open>save: save\<close>, whose value is an identifier, makes the method builder throw.
\<close>

theorem createActionDecoratedProps_counterexample:
  "createActionDecoratedProps sampleHelpers
     (plainProp ''actions''
        (ObjectExpression [Property ''init'' (Identifier ''save'') (Identifier ''save'') None])
        None)
   = Inl BuilderError"
  by (simp add: plainProp_def createActionDecoratedProps_def createMethodProp_def
      j_methodDefinition_def functionProp_of_property_def Let_def)

theorem createActionDecoratedProps_methods_witness:
  "eo_value sampleActions = ObjectExpression sampleActionEntries
   \<and> list_all actionEntry sampleActionEntries
   \<and> map_sum id fst (createActionDecoratedProps sampleHelpers sampleActions)
     = Inr [\<lparr>md_kind = ''method'', md_key = Identifier ''save'',
             md_value = func [] [superCall ''save'' []], md_comments = Some [''// save''],
             md_decorators = [Decorator (Identifier ''action'')]\<rparr>,
            \<lparr>md_kind = ''method'', md_key = Identifier ''cancel'',
             md_value = func [] [], md_comments = None,
             md_decorators = [Decorator (Identifier ''action'')]\<rparr>]"
proof -
  have 1: "eo_value sampleActions = ObjectExpression sampleActionEntries"
    by (simp add: sampleActions_def plainProp_def)
  have 2: "list_all actionEntry sampleActionEntries"
    by (simp add: sampleActionEntries_def actionEntry_def func_def validKind_def propKind_def)
  have "map_sum id fst (createActionDecoratedProps sampleHelpers sampleActions)
     = Inr [\<lparr>md_kind = ''method'', md_key = Identifier ''save'',
             md_value = func [] [superCall ''save'' []], md_comments = Some [''// save''],
             md_decorators = [Decorator (Identifier ''action'')]\<rparr>,
            \<lparr>md_kind = ''method'', md_key = Identifier ''cancel'',
             md_value = func [] [], md_comments = None,
             md_decorators = [Decorator (Identifier ''action'')]\<rparr>]"
    by (simp add: createActionDecoratedProps_object [OF 1 2] sampleActionEntries_def
        sampleHelpers_def func_def thisSuper_def superCall_def propKind_def memberExpression_def)
  with 1 2 show ?thesis
    using createActionDecoratedProps_methods [OF 1 2, of sampleHelpers] by blast
qed

section \<open>What each branch computes\<close>

lemma callExprMethod_function:
  assumes "methodEntry h e" and "find_expr (eo_key p) = []"
  shows "callExprMethod h p e = Inr (entryMethod h p e, overwritten h p e)"
proof -
  from assms(1) have "isFunctionExpression (prop_value e)"
    by (simp add: methodEntry_def)
  then obtain i ps b where v: "prop_value e = FunctionExpression i ps b"
    using isFunctionExpression_shape by blast
  let ?fp = "\<lparr>fp_kind = getPropName h e, fp_key = eo_key p,
              fp_value = FunctionExpression i (tl ps) b, fp_comments = prop_comments e\<rparr>"
  from assms have "createMethodProp ?fp [] =
      Inr (\<lparr>md_kind = propKind (fp_kind ?fp), md_key = fp_key ?fp,
            md_value = replace_expr (fp_key ?fp) (fp_value ?fp),
            md_comments = fp_comments ?fp, md_decorators = []\<rparr>,
           ?fp\<lparr>fp_value := replace_expr (fp_key ?fp) (fp_value ?fp)\<rparr>)"
    by (intro createMethodProp_ok) (simp_all add: methodEntry_def)
  then show ?thesis
    by (simp add: callExprMethod_def v property_of_functionProp_def entryMethod_def
        overwritten_def)
qed

lemma callExprMethod_no_function:
  "\<not> isFunctionExpression (prop_value e) \<Longrightarrow> callExprMethod h p e = Inl TypeError"
  by (cases "prop_value e") (simp_all add: callExprMethod_def)

lemma callExprMethod_no_kind:
  assumes "isFunctionExpression (prop_value e)" and "\<not> validKind (propKind (getPropName h e))"
  shows "callExprMethod h p e = Inl BuilderError"
proof -
  from assms(1) obtain i ps b where v: "prop_value e = FunctionExpression i ps b"
    using isFunctionExpression_shape by blast
  with assms(2) show ?thesis
    by (simp add: callExprMethod_def createMethodProp_error)
qed

lemma map_error_callExprMethod:
  assumes "list_all (methodEntry h) entries" and "find_expr (eo_key p) = []"
  shows "map_error (callExprMethod h p) entries =
     Inr (map (\<lambda>e. (entryMethod h p e, overwritten h p e)) entries)"
  by (rule map_error_Inr) (use assms in \<open>simp add: list_all_iff callExprMethod_function\<close>)

lemma createCallExpressionProp_object:
  assumes "eo_value p = CallExpression f args" and "args \<noteq> []"
    and "last args = ObjectExpression (e # entries)"
    and "list_all (methodEntry h) (e # entries)" and "find_expr (eo_key p) = []"
  shows "createCallExpressionProp h p =
     Inr (map Method
           ((entryMethod h p e)
              \<lparr>md_comments := eo_comments p,
               md_decorators := createInstancePropDecorators h
                 (p\<lparr>eo_value := CallExpression f
                    (butlast args @ [ObjectExpression (map (overwritten h p) (e # entries))])\<rparr>)\<rparr>
            # map (entryMethod h p) entries),
          p\<lparr>eo_value := CallExpression f
            (butlast args @ [ObjectExpression (map (overwritten h p) (e # entries))])\<rparr>)"
  using assms(1-3) map_error_callExprMethod [OF assms(4,5)]
  by (simp add: createCallExpressionProp_def callExprArgs_def writeLastArg_def Let_def comp_def
      withDecorators_md_def withComments_md_def)

lemma createCallExpressionProp_function:
  assumes "eo_value p = CallExpression f args" and "args \<noteq> []"
    and "isFunctionExpression (last args)" and "validKind (propKind (eo_kind p))"
    and "find_expr (eo_key p) = []"
  shows "createCallExpressionProp h p =
     Inr ([Method
            \<lparr>md_kind = propKind (eo_kind p),
              md_key = eo_key p, md_value = replace_expr (eo_key p) (last args),
              md_comments = eo_comments p,
              md_decorators = createInstancePropDecorators h p\<rparr>],
          p\<lparr>eo_value := CallExpression f (butlast args @ [replace_expr (eo_key p) (last args)])\<rparr>)"
proof -
  from assms(3) obtain i ps b where l: "last args = FunctionExpression i ps b"
    using isFunctionExpression_shape by blast
  let ?fp = "\<lparr>fp_kind = eo_kind p, fp_key = eo_key p,
              fp_value = FunctionExpression i ps b, fp_comments = eo_comments p\<rparr>"
  from assms(4,5) have "createMethodProp ?fp (createInstancePropDecorators h p) =
      Inr (\<lparr>md_kind = propKind (fp_kind ?fp), md_key = fp_key ?fp,
            md_value = replace_expr (fp_key ?fp) (fp_value ?fp),
            md_comments = fp_comments ?fp, md_decorators = createInstancePropDecorators h p\<rparr>,
           ?fp\<lparr>fp_value := replace_expr (fp_key ?fp) (fp_value ?fp)\<rparr>)"
    by (intro createMethodProp_ok) simp_all
  with assms(1,2) l show ?thesis
    by (simp add: createCallExpressionProp_def callExprArgs_def writeLastArg_def Let_def)
qed

lemma classLoop_eq:
  "classLoop h props b d s =
     (case map_error (classStep h) props of
        Inl e \<Rightarrow> Inl e
      | Inr rs \<Rightarrow> Inr (b @ concat (map fst rs), d @ concat (map (fst \<circ> snd) rs),
                     s @ map (snd \<circ> snd) rs))"
proof (induction props arbitrary: b d s)
  case Nil
  show ?case by simp
next
  case (Cons p props)
  show ?case
  proof (cases "classStep h p")
    case (Inl e)
    then show ?thesis by simp
  next
    case (Inr r)
    obtain ms ds p' where r: "r = (ms, ds, p')" by (cases r) auto
    show ?thesis
      by (cases "map_error (classStep h) props") (simp_all add: Inr r Cons.IH)
  qed
qed

text \<open>
  C3, as the code has it. For a call-expression property whose last argument is an object
  expression with at least one entry, every entry a function whose name (as
  \<^verbatim>\<open>getPropName\<close> gives it) is \<^verbatim>\<open>get\<close>, \<^verbatim>\<open>set\<close>, \<^verbatim>\<open>init\<close>, \<^verbatim>\<open>method\<close> or
  \<^verbatim>\<open>constructor\<close>, the handler gives one method per entry, in entry order. Each method
  has the key of the outer property, the name of its entry as kind (\<^verbatim>\<open>init\<close> becoming
  \<^verbatim>\<open>method\<close>), and the entry's function without its first parameter and with the
  delegation rewriter applied. The first method carries the comments and the
  decorators of the outer property; every other method carries the comments of its own
  entry and no decorator.
\<close>

theorem createCallExpressionProp_object_methods:
  assumes "eo_value p = CallExpression f args" and "args \<noteq> []"
    and "last args = ObjectExpression entries" and "entries \<noteq> []"
    and "list_all (methodEntry h) entries" and "find_expr (eo_key p) = []"
  shows "\<exists>ms after.
           createCallExpressionProp h p = Inr (map Method ms, after)
           \<and> length ms = length entries
           \<and> map md_key ms = map (\<lambda>e. eo_key p) entries
           \<and> map md_kind ms =
               map (\<lambda>e. if getPropName h e = ''init'' then ''method'' else getPropName h e)
                 entries
           \<and> map md_value ms =
               map (\<lambda>e. replace_expr (eo_key p) (shiftParams (prop_value e))) entries
           \<and> map md_comments ms = eo_comments p # map prop_comments (tl entries)
           \<and> map md_decorators ms =
               createInstancePropDecorators h after # map (\<lambda>e. []) (tl entries)"
proof -
  from assms(4) obtain e es where es: "entries = e # es" by (cases entries) auto
  define after where "after =
    p\<lparr>eo_value := CallExpression f
        (butlast args @ [ObjectExpression (map (overwritten h p) (e # es))])\<rparr>"
  define ms where "ms =
    (entryMethod h p e)
       \<lparr>md_comments := eo_comments p, md_decorators := createInstancePropDecorators h after\<rparr>
    # map (entryMethod h p) es"
  have "createCallExpressionProp h p = Inr (map Method ms, after)"
    using createCallExpressionProp_object
      [OF assms(1,2) assms(3) [unfolded es] assms(5) [unfolded es] assms(6)]
    by (simp add: ms_def after_def)
  moreover have "length ms = length entries"
    by (simp add: ms_def es)
  moreover have "map md_key ms = map (\<lambda>e. eo_key p) entries"
    by (simp add: ms_def es entryMethod_def)
  moreover have "map md_kind ms =
      map (\<lambda>e. if getPropName h e = ''init'' then ''method'' else getPropName h e) entries"
    by (simp add: ms_def es entryMethod_def propKind_def)
  moreover have "map md_value ms =
      map (\<lambda>e. replace_expr (eo_key p) (shiftParams (prop_value e))) entries"
    by (simp add: ms_def es entryMethod_def)
  moreover have "map md_comments ms = eo_comments p # map prop_comments (tl entries)"
    by (simp add: ms_def es entryMethod_def)
  moreover have "map md_decorators ms =
      createInstancePropDecorators h after # map (\<lambda>e. []) (tl entries)"
    by (simp add: ms_def es entryMethod_def)
  ultimately show ?thesis
    by (intro exI [of _ ms] exI [of _ after] conjI)
qed

lemmas sample_defs =
  sampleDecorator_def sampleFunction_def sampleEntries_def sampleAccessors_def
  sampleActionEntries_def sampleActions_def samplePlain_def plainProp_def callProp_def
  func_def thisSuper_def superCall_def sampleHelpers_def

lemmas eval_defs =
  classStep_def createCallExpressionProp_def callExprMethod_def createMethodProp_def
  j_methodDefinition_def validKind_def propKind_def replaceSuperExpressions_def
  memberExpression_def callExprArgs_def writeLastArg_def Let_def
  property_of_functionProp_def functionProp_of_property_def functionProp_of_eoProp_def
  withDecorators_md_def withComments_md_def withDecorators_cp_def withComments_cp_def
  createActionDecoratedProps_def createClassProp_def

theorem createCallExpressionProp_object_methods_witness:
  "eo_value sampleAccessors =
     CallExpression (Identifier ''computed'') [Literal ''first'', ObjectExpression sampleEntries]
   \<and> list_all (methodEntry sampleHelpers) sampleEntries
   \<and> map_sum id fst (createCallExpressionProp sampleHelpers sampleAccessors)
     = Inr [Method \<lparr>md_kind = ''get'', md_key = Identifier ''full'',
                    md_value = func [] [superCall ''full'' []],
                    md_comments = Some [''// full''],
                    md_decorators = [Decorator (Identifier ''computed'')]\<rparr>,
            Method \<lparr>md_kind = ''set'', md_key = Identifier ''full'',
                    md_value = func [''v''] [],
                    md_comments = Some [''// s''], md_decorators = []\<rparr>]"
proof -
  let ?args = "[Literal ''first'', ObjectExpression sampleEntries]"
  have 1: "eo_value sampleAccessors = CallExpression (Identifier ''computed'') ?args"
    by (simp add: sampleAccessors_def callProp_def)
  have 2: "?args \<noteq> []" by simp
  have 3: "last ?args = ObjectExpression sampleEntries" by simp
  have 4: "sampleEntries \<noteq> []" by (simp add: sampleEntries_def)
  have 5: "list_all (methodEntry sampleHelpers) sampleEntries"
    by (simp add: sampleEntries_def methodEntry_def sampleHelpers_def func_def validKind_def
        propKind_def)
  have 6: "find_expr (eo_key sampleAccessors) = []"
    by (simp add: sampleAccessors_def callProp_def)
  have v: "map_sum id fst (createCallExpressionProp sampleHelpers sampleAccessors)
     = Inr [Method \<lparr>md_kind = ''get'', md_key = Identifier ''full'',
                    md_value = func [] [superCall ''full'' []],
                    md_comments = Some [''// full''],
                    md_decorators = [Decorator (Identifier ''computed'')]\<rparr>,
            Method \<lparr>md_kind = ''set'', md_key = Identifier ''full'',
                    md_value = func [''v''] [],
                    md_comments = Some [''// s''], md_decorators = []\<rparr>]"
    by (simp add: sample_defs eval_defs)
  show ?thesis
    using createCallExpressionProp_object_methods [OF 1 2 3 4 5 6] 1 5 v by blast
qed

text \<open>
  As the claim states it, every entry gives a method whose kind is the entry's name. An
  entry whose value is no function (\<^verbatim>\<open>get: getter\<close>) makes the handler throw at line
  228, an entry named \<^verbatim>\<open>volatile\<close> makes the method builder throw, and an entry named
  \<^verbatim>\<open>init\<close> gives a method of kind \<^verbatim>\<open>method\<close> (line 104).
\<close>

theorem createCallExpressionProp_object_counterexample:
  "createCallExpressionProp sampleHelpers
     (callProp ''full''
        [ObjectExpression [Property ''init'' (Identifier ''get'') (Identifier ''getter'') None]]
        None)
     = Inl TypeError
   \<and> createCallExpressionProp sampleHelpers
     (callProp ''full''
        [ObjectExpression [Property ''init'' (Identifier ''volatile'') (func [''key''] []) None]]
        None)
     = Inl BuilderError
   \<and> map_sum id fst (createCallExpressionProp sampleHelpers
        (callProp ''full''
           [ObjectExpression [Property ''init'' (Identifier ''init'') (func [''v''] []) None]]
           None))
     = Inr [Method \<lparr>md_kind = ''method'', md_key = Identifier ''full'',
                    md_value = func [] [], md_comments = None,
                    md_decorators = [Decorator (Identifier ''computed'')]\<rparr>]"
  by (simp add: sample_defs eval_defs)

section \<open>Comments\<close>

text \<open>
  C7, at the input where the code fails. The property \<^verbatim>\<open>actions\<close> of the sample carries
  the comment \<^verbatim>\<open>// handlers\<close>; the methods the action expander makes of it carry the
  comments of their own entries and none carries \<^verbatim>\<open>// handlers\<close>: the expander never
  reads the comments of the property. Every other branch carries the comments of the
  originating property: the first method of a call-expression property with an
  object argument, every method the method synthesizer returns, every field, and every
  assignment statement of the constructor.
\<close>

theorem actions_comments_dropped:
  "eo_comments sampleActions = Some [''// handlers'']
   \<and> map_sum id (map md_comments \<circ> fst) (createActionDecoratedProps sampleHelpers sampleActions)
     = Inr [Some [''// save''], None]
   \<and> map_sum id (map member_comments \<circ> fst)
       (createCallExpressionProp sampleHelpers sampleAccessors)
     = Inr [Some [''// full''], Some [''// s'']]
   \<and> (createMethodProp fp ds = Inl BuilderError
        \<or> map_sum id (md_comments \<circ> fst) (createMethodProp fp ds) = Inr (fp_comments fp))
   \<and> cp_comments (createClassProp h p) = eo_comments p
   \<and> map stmt_comments (instancePropsToExpressions ps) = map eo_comments ps"
proof -
  have a: "eo_comments sampleActions = Some [''// handlers'']"
    by (simp add: sample_defs)
  have b: "map_sum id (map md_comments \<circ> fst)
      (createActionDecoratedProps sampleHelpers sampleActions) = Inr [Some [''// save''], None]"
    by (simp add: sample_defs eval_defs)
  have c: "map_sum id (map member_comments \<circ> fst)
       (createCallExpressionProp sampleHelpers sampleAccessors)
     = Inr [Some [''// full''], Some [''// s'']]"
    by (simp add: sample_defs eval_defs)
  have d: "createMethodProp fp ds = Inl BuilderError
        \<or> map_sum id (md_comments \<circ> fst) (createMethodProp fp ds) = Inr (fp_comments fp)"
    by (simp add: createMethodProp_def j_methodDefinition_def Let_def
        replaceSuperExpressions_def withDecorators_md_def withComments_md_def)
  have e: "cp_comments (createClassProp h p) = eo_comments p"
    by (simp add: createClassProp_def Let_def withDecorators_cp_def withComments_cp_def)
  have f: "map stmt_comments (instancePropsToExpressions ps) = map eo_comments ps"
    by (simp add: instancePropsToExpressions_def comp_def)
  from a b c d e f show ?thesis by blast
qed

section \<open>The class assembler\<close>

text \<open>
  C2. The class assembler runs one step per property, in order, and ends at the first
  step that throws. The body of the class is the concatenation, in property order, of
  the member lists of the steps, so the members of one property stand together at
  that property's place; the class decorators are the concatenation of the steps'
  decorators. A step is decided by the first rule that applies: a class decorator gives
  a decorator and no member; else a property of type \<^verbatim>\<open>FunctionExpression\<close> gives
  the one method of the method synthesizer; else a call-expression property gives the
  members of the call-expression handler; else a property named \<^verbatim>\<open>actions\<close> gives
  the methods of the action expander; else the property gives one field.
\<close>

theorem createClass_dispatch:
  "createClass h className props superClassName mixins =
     (case map_error (classStep h) props of
        Inl e \<Rightarrow> Inl e
      | Inr rs \<Rightarrow>
          Inr (\<lparr>cd_id = (if className \<noteq> [] then Some (Identifier className) else None),
                cd_body = concat (map fst rs),
                cd_superClass = createSuperClassExpression superClassName mixins,
                cd_decorators = concat (map (fst \<circ> snd) rs)\<rparr>,
               map (snd \<circ> snd) rs))
   \<and> (eo_isClassDecorator p \<longrightarrow>
        classStep h p = Inr ([], [createClassDecorator h p], p))
   \<and> (\<not> eo_isClassDecorator p \<and> eo_type p = ''FunctionExpression'' \<longrightarrow>
        map_sum id fst (classStep h p) =
          map_sum id (\<lambda>r. [Method (fst r)]) (createMethodProp (functionProp_of_eoProp p) []))
   \<and> (\<not> eo_isClassDecorator p \<and> eo_type p \<noteq> ''FunctionExpression'' \<and> eo_isCallExpression p \<longrightarrow>
        map_sum id fst (classStep h p) = map_sum id fst (createCallExpressionProp h p))
   \<and> (\<not> eo_isClassDecorator p \<and> eo_type p \<noteq> ''FunctionExpression'' \<and> \<not> eo_isCallExpression p
        \<and> eo_name p = ''actions'' \<longrightarrow>
        map_sum id fst (classStep h p) =
          map_sum id (map Method \<circ> fst) (createActionDecoratedProps h p))
   \<and> (\<not> eo_isClassDecorator p \<and> eo_type p \<noteq> ''FunctionExpression'' \<and> \<not> eo_isCallExpression p
        \<and> eo_name p \<noteq> ''actions'' \<longrightarrow>
        classStep h p = Inr ([Field (createClassProp h p)], [], p))"
proof -
  have "createClass h className props superClassName mixins =
     (case map_error (classStep h) props of
        Inl e \<Rightarrow> Inl e
      | Inr rs \<Rightarrow>
          Inr (\<lparr>cd_id = (if className \<noteq> [] then Some (Identifier className) else None),
                cd_body = concat (map fst rs),
                cd_superClass = createSuperClassExpression superClassName mixins,
                cd_decorators = concat (map (fst \<circ> snd) rs)\<rparr>,
               map (snd \<circ> snd) rs))"
    by (simp add: createClass_def classLoop_eq withDecorators_cd_def split: sum.splits)
  moreover have "\<not> eo_isClassDecorator p \<and> eo_type p = ''FunctionExpression'' \<longrightarrow>
        map_sum id fst (classStep h p) =
          map_sum id (\<lambda>r. [Method (fst r)]) (createMethodProp (functionProp_of_eoProp p) [])"
    by (auto simp: classStep_def split: sum.splits)
  moreover have "\<not> eo_isClassDecorator p \<and> eo_type p \<noteq> ''FunctionExpression'' \<and> eo_isCallExpression p \<longrightarrow>
        map_sum id fst (classStep h p) = map_sum id fst (createCallExpressionProp h p)"
    by (auto simp: classStep_def split: sum.splits)
  moreover have "\<not> eo_isClassDecorator p \<and> eo_type p \<noteq> ''FunctionExpression'' \<and> \<not> eo_isCallExpression p
        \<and> eo_name p = ''actions'' \<longrightarrow>
        map_sum id fst (classStep h p) =
          map_sum id (map Method \<circ> fst) (createActionDecoratedProps h p)"
    by (auto simp: classStep_def split: sum.splits)
  ultimately show ?thesis
    by (simp add: classStep_def)
qed

theorem createClass_dispatch_witness:
  "map_sum id fst
     (createClass sampleHelpers ''Foo''
        [sampleDecorator, sampleFunction, sampleAccessors, sampleActions, samplePlain]
        ''EmberObject'' [])
   = Inr \<lparr>cd_id = Some (Identifier ''Foo''),
          cd_body =
            [Method \<lparr>md_kind = ''method'', md_key = Identifier ''init'',
                     md_value = func [] [superCall ''init'' [Identifier ''arguments'']],
                     md_comments = Some [''// set up''], md_decorators = []\<rparr>,
             Method \<lparr>md_kind = ''get'', md_key = Identifier ''full'',
                     md_value = func [] [superCall ''full'' []],
                     md_comments = Some [''// full''],
                     md_decorators = [Decorator (Identifier ''computed'')]\<rparr>,
             Method \<lparr>md_kind = ''set'', md_key = Identifier ''full'',
                     md_value = func [''v''] [],
                     md_comments = Some [''// s''], md_decorators = []\<rparr>,
             Method \<lparr>md_kind = ''method'', md_key = Identifier ''save'',
                     md_value = func [] [superCall ''save'' []],
                     md_comments = Some [''// save''],
                     md_decorators = [Decorator (Identifier ''action'')]\<rparr>,
             Method \<lparr>md_kind = ''method'', md_key = Identifier ''cancel'',
                     md_value = func [] [], md_comments = None,
                     md_decorators = [Decorator (Identifier ''action'')]\<rparr>,
             Field \<lparr>cp_key = Identifier ''title'', cp_value = Some (Literal ''x''),
                    cp_computed = False, cp_comments = Some [''// title''],
                    cp_decorators = []\<rparr>],
          cd_superClass = Identifier ''EmberObject'',
          cd_decorators = [Decorator (Identifier ''tagName'')]\<rparr>"
proof -
  let ?props = "[sampleDecorator, sampleFunction, sampleAccessors, sampleActions, samplePlain]"
  note d = createClass_dispatch [where h = sampleHelpers and className = "''Foo''"
      and props = ?props and superClassName = "''EmberObject''" and mixins = "[]"]
  have 1: "eo_isClassDecorator sampleDecorator"
    by (simp add: sample_defs)
  have 2: "\<not> eo_isClassDecorator sampleFunction \<and> eo_type sampleFunction = ''FunctionExpression''"
    by (simp add: sample_defs)
  have 3: "\<not> eo_isClassDecorator sampleAccessors \<and> eo_type sampleAccessors \<noteq> ''FunctionExpression''
      \<and> eo_isCallExpression sampleAccessors"
    by (simp add: sample_defs)
  have 4: "\<not> eo_isClassDecorator sampleActions \<and> eo_type sampleActions \<noteq> ''FunctionExpression''
      \<and> \<not> eo_isCallExpression sampleActions \<and> eo_name sampleActions = ''actions''"
    by (simp add: sample_defs)
  have 5: "\<not> eo_isClassDecorator samplePlain \<and> eo_type samplePlain \<noteq> ''FunctionExpression''
      \<and> \<not> eo_isCallExpression samplePlain \<and> eo_name samplePlain \<noteq> ''actions''"
    by (simp add: sample_defs)
  from 1 d [where p = sampleDecorator]
  have s1: "classStep sampleHelpers sampleDecorator =
      Inr ([], [createClassDecorator sampleHelpers sampleDecorator], sampleDecorator)"
    by blast
  from 2 d [where p = sampleFunction]
  have s2: "map_sum id fst (classStep sampleHelpers sampleFunction) =
      map_sum id (\<lambda>r. [Method (fst r)])
        (createMethodProp (functionProp_of_eoProp sampleFunction) [])"
    by blast
  from 3 d [where p = sampleAccessors]
  have s3: "map_sum id fst (classStep sampleHelpers sampleAccessors) =
      map_sum id fst (createCallExpressionProp sampleHelpers sampleAccessors)"
    by blast
  from 4 d [where p = sampleActions]
  have s4: "map_sum id fst (classStep sampleHelpers sampleActions) =
      map_sum id (map Method \<circ> fst) (createActionDecoratedProps sampleHelpers sampleActions)"
    by blast
  from 5 d [where p = samplePlain]
  have s5: "classStep sampleHelpers samplePlain =
      Inr ([Field (createClassProp sampleHelpers samplePlain)], [], samplePlain)"
    by blast
  have c: "createClass sampleHelpers ''Foo'' ?props ''EmberObject'' [] =
     (case map_error (classStep sampleHelpers) ?props of
        Inl e \<Rightarrow> Inl e
      | Inr rs \<Rightarrow>
          Inr (\<lparr>cd_id = (if ''Foo'' \<noteq> [] then Some (Identifier ''Foo'') else None),
                cd_body = concat (map fst rs),
                cd_superClass = createSuperClassExpression ''EmberObject'' [],
                cd_decorators = concat (map (fst \<circ> snd) rs)\<rparr>,
               map (snd \<circ> snd) rs))"
    using d [where p = samplePlain] by blast
  obtain ms2 a2 where r2: "classStep sampleHelpers sampleFunction = Inr (ms2, [], a2)"
    by (simp add: sample_defs eval_defs)
  obtain ms3 a3 where r3: "classStep sampleHelpers sampleAccessors = Inr (ms3, [], a3)"
    by (simp add: sample_defs eval_defs)
  obtain ms4 a4 where r4: "classStep sampleHelpers sampleActions = Inr (ms4, [], a4)"
    by (simp add: sample_defs eval_defs)
  from s2 r2 have ms2: "Inr ms2 = map_sum id (\<lambda>r. [Method (fst r)])
        (createMethodProp (functionProp_of_eoProp sampleFunction) [])"
    by simp
  from s3 r3 have ms3: "Inr ms3 = map_sum id fst (createCallExpressionProp sampleHelpers sampleAccessors)"
    by simp
  from s4 r4 have ms4: "Inr ms4 =
      map_sum id (map Method \<circ> fst) (createActionDecoratedProps sampleHelpers sampleActions)"
    by simp
  have v2: "ms2 = [Method \<lparr>md_kind = ''method'', md_key = Identifier ''init'',
                     md_value = func [] [superCall ''init'' [Identifier ''arguments'']],
                     md_comments = Some [''// set up''], md_decorators = []\<rparr>]"
    using ms2 by (simp add: sample_defs eval_defs)
  have v3: "ms3 = [Method \<lparr>md_kind = ''get'', md_key = Identifier ''full'',
                     md_value = func [] [superCall ''full'' []],
                     md_comments = Some [''// full''],
                     md_decorators = [Decorator (Identifier ''computed'')]\<rparr>,
             Method \<lparr>md_kind = ''set'', md_key = Identifier ''full'',
                     md_value = func [''v''] [],
                     md_comments = Some [''// s''], md_decorators = []\<rparr>]"
    using ms3 by (simp add: sample_defs eval_defs)
  have v4: "ms4 = [Method \<lparr>md_kind = ''method'', md_key = Identifier ''save'',
                     md_value = func [] [superCall ''save'' []],
                     md_comments = Some [''// save''],
                     md_decorators = [Decorator (Identifier ''action'')]\<rparr>,
             Method \<lparr>md_kind = ''method'', md_key = Identifier ''cancel'',
                     md_value = func [] [], md_comments = None,
                     md_decorators = [Decorator (Identifier ''action'')]\<rparr>]"
    using ms4 by (simp add: sample_defs eval_defs)
  have v5: "createClassProp sampleHelpers samplePlain =
      \<lparr>cp_key = Identifier ''title'', cp_value = Some (Literal ''x''),
                    cp_computed = False, cp_comments = Some [''// title''],
                    cp_decorators = []\<rparr>"
    by (simp add: sample_defs eval_defs)
  have v1: "createClassDecorator sampleHelpers sampleDecorator = Decorator (Identifier ''tagName'')"
    by (simp add: sample_defs)
  show ?thesis
    by (simp add: c s1 r2 r3 r4 s5 v1 v2 v3 v4 v5 createSuperClassExpression_def)
qed

section \<open>What the synthesizers write into their input\<close>

lemma createCallExpressionProp_frame:
  "createCallExpressionProp h p = Inr (ms, p') \<Longrightarrow> p' = p\<lparr>eo_value := eo_value p'\<rparr>"
  by (auto simp: createCallExpressionProp_def callExprArgs_def writeLastArg_def Let_def
      split: option.splits expr.splits sum.splits list.splits if_splits)

lemma createActionDecoratedProps_frame:
  "createActionDecoratedProps h p = Inr (ms, p') \<Longrightarrow> p' = p\<lparr>eo_value := eo_value p'\<rparr>"
  by (auto simp: createActionDecoratedProps_def Let_def split: expr.splits sum.splits)

lemma classStep_frame:
  assumes "classStep h p = Inr (ms, ds, p')"
  shows "p' = p\<lparr>eo_value := eo_value p'\<rparr>"
proof -
  consider (dec) "eo_isClassDecorator p"
    | (fn) "\<not> eo_isClassDecorator p" "eo_type p = ''FunctionExpression''"
    | (call) "\<not> eo_isClassDecorator p" "eo_type p \<noteq> ''FunctionExpression''" "eo_isCallExpression p"
    | (act) "\<not> eo_isClassDecorator p" "eo_type p \<noteq> ''FunctionExpression''"
        "\<not> eo_isCallExpression p" "eo_name p = ''actions''"
    | (plain) "\<not> eo_isClassDecorator p" "eo_type p \<noteq> ''FunctionExpression''"
        "\<not> eo_isCallExpression p" "eo_name p \<noteq> ''actions''"
    by blast
  then show ?thesis
  proof cases
    case dec
    with assms have "p' = p" by (simp add: classStep_def)
    then show ?thesis by simp
  next
    case fn
    with assms obtain v where "p' = p\<lparr>eo_value := v\<rparr>"
      by (auto simp: classStep_def split: sum.splits)
    then show ?thesis by simp
  next
    case call
    with assms obtain ms' where "createCallExpressionProp h p = Inr (ms', p')"
      by (auto simp: classStep_def split: sum.splits)
    then show ?thesis by (rule createCallExpressionProp_frame)
  next
    case act
    with assms obtain ms' where "createActionDecoratedProps h p = Inr (ms', p')"
      by (auto simp: classStep_def split: sum.splits)
    then show ?thesis by (rule createActionDecoratedProps_frame)
  next
    case plain
    with assms have "p' = p" by (simp add: classStep_def)
    then show ?thesis by simp
  qed
qed

lemma classSteps_frame:
  assumes "map_error (classStep h) props = Inr rs"
  shows "list_all2 (\<lambda>p p'. p' = p\<lparr>eo_value := eo_value p'\<rparr>) props (map (snd \<circ> snd) rs)"
proof -
  from assms have "list_all2 (\<lambda>p r. classStep h p = Inr r) props rs"
    by (rule map_error_list_all2)
  then have "list_all2 (\<lambda>p r. snd (snd r) = p\<lparr>eo_value := eo_value (snd (snd r))\<rparr>) props rs"
    by (rule list_all2_mono) (metis classStep_frame prod.collapse)
  then show ?thesis by (simp add: list_all2_map2)
qed

lemma frame_fields:
  assumes "list_all2 (\<lambda>p p'. p' = p\<lparr>eo_value := eo_value p'\<rparr>) props after"
  shows "length after = length props
    \<and> map eo_key after = map eo_key props \<and> map eo_kind after = map eo_kind props
    \<and> map eo_type after = map eo_type props \<and> map eo_computed after = map eo_computed props
    \<and> map eo_name after = map eo_name props \<and> map eo_comments after = map eo_comments props
    \<and> map eo_isClassDecorator after = map eo_isClassDecorator props
    \<and> map eo_isCallExpression after = map eo_isCallExpression props"
  using assms
proof (induction rule: list_all2_induct)
  case Nil
  show ?case by simp
next
  case (Cons p ps p' ps')
  from Cons(1) have "eo_key p' = eo_key p \<and> eo_kind p' = eo_kind p \<and> eo_type p' = eo_type p
    \<and> eo_computed p' = eo_computed p \<and> eo_name p' = eo_name p \<and> eo_comments p' = eo_comments p
    \<and> eo_isClassDecorator p' = eo_isClassDecorator p
    \<and> eo_isCallExpression p' = eo_isCallExpression p"
    by (cases p, cases p') simp
  with Cons.IH show ?case by simp
qed

text \<open>
  C10, as the code has it. When no key of a property holds a delegation statement, no
  synthesizer changes the key, kind, type, computed flag, name, comments or
  classification flags of a property, and the class assembler returns as many
  properties as it was given. The nodes below \<^verbatim>\<open>value\<close>, among them the arguments
  that \<^verbatim>\<open>callExprArgs\<close> lists, are written in place. The method synthesizer replaces the
  delegation statements inside the function it is given. A class decorator and a plain
  field are left as they are, and so is a call-expression property whose last argument
  is neither a function nor an object expression. With a function as last argument
  that function is rewritten inside the call. With an object expression of functions
  with names of methods, every entry gets its kind and key overwritten, loses its first
  parameter and is rewritten. The entries of an action hash are rewritten, each under
  its own key.
\<close>

theorem inputs_after_synthesis:
  "(list_all (\<lambda>p. find_expr (eo_key p) = []) props
      \<and> createClass h className props superClassName mixins = Inr (cd, after) \<longrightarrow>
      length after = length props
      \<and> map eo_key after = map eo_key props \<and> map eo_kind after = map eo_kind props
      \<and> map eo_type after = map eo_type props \<and> map eo_computed after = map eo_computed props
      \<and> map eo_name after = map eo_name props \<and> map eo_comments after = map eo_comments props
      \<and> map eo_isClassDecorator after = map eo_isClassDecorator props
      \<and> map eo_isCallExpression after = map eo_isCallExpression props)
   \<and> (validKind (propKind (fp_kind fp)) \<and> isFunctionExpression (fp_value fp)
        \<and> find_expr (fp_key fp) = [] \<longrightarrow>
        map_sum id snd (createMethodProp fp ds) =
          Inr (fp\<lparr>fp_value := replace_expr (fp_key fp) (fp_value fp)\<rparr>))
   \<and> (eo_isClassDecorator p
        \<or> eo_type p \<noteq> ''FunctionExpression'' \<and> \<not> eo_isCallExpression p
           \<and> eo_name p \<noteq> ''actions'' \<longrightarrow>
        map_sum id (snd \<circ> snd) (classStep h p) = Inr p)
   \<and> (\<not> eo_isClassDecorator p \<and> eo_type p = ''FunctionExpression''
        \<and> validKind (propKind (eo_kind p)) \<and> isFunctionExpression (eo_value p)
        \<and> find_expr (eo_key p) = [] \<longrightarrow>
        map_sum id (snd \<circ> snd) (classStep h p) =
          Inr (p\<lparr>eo_value := replace_expr (eo_key p) (eo_value p)\<rparr>))
   \<and> (eo_value p = CallExpression f args
        \<and> (args = [] \<or> \<not> isFunctionExpression (last args)
              \<and> (\<forall>entries. last args \<noteq> ObjectExpression entries)) \<longrightarrow>
        map_sum id snd (createCallExpressionProp h p) = Inr p)
   \<and> (eo_value p = CallExpression f args \<and> args \<noteq> [] \<and> isFunctionExpression (last args)
        \<and> validKind (propKind (eo_kind p)) \<and> find_expr (eo_key p) = [] \<longrightarrow>
        map_sum id snd (createCallExpressionProp h p) =
          Inr (p\<lparr>eo_value := CallExpression f
                 (butlast args @ [replace_expr (eo_key p) (last args)])\<rparr>))
   \<and> (eo_value p = CallExpression f args \<and> args \<noteq> [] \<and> last args = ObjectExpression entries
        \<and> entries \<noteq> [] \<and> list_all (methodEntry h) entries \<and> find_expr (eo_key p) = [] \<longrightarrow>
        map_sum id snd (createCallExpressionProp h p) =
          Inr (p\<lparr>eo_value := CallExpression f
                 (butlast args @ [ObjectExpression (map (overwritten h p) entries)])\<rparr>))
   \<and> (eo_value p = ObjectExpression actionProps \<and> list_all actionEntry actionProps \<longrightarrow>
        map_sum id snd (createActionDecoratedProps h p) =
          Inr (p\<lparr>eo_value := ObjectExpression (map rewrittenEntry actionProps)\<rparr>))"
proof -
  have a: "list_all (\<lambda>p. find_expr (eo_key p) = []) props
      \<and> createClass h className props superClassName mixins = Inr (cd, after) \<longrightarrow>
      length after = length props
      \<and> map eo_key after = map eo_key props \<and> map eo_kind after = map eo_kind props
      \<and> map eo_type after = map eo_type props \<and> map eo_computed after = map eo_computed props
      \<and> map eo_name after = map eo_name props \<and> map eo_comments after = map eo_comments props
      \<and> map eo_isClassDecorator after = map eo_isClassDecorator props
      \<and> map eo_isCallExpression after = map eo_isCallExpression props"
  proof (intro impI, elim conjE)
    assume c: "createClass h className props superClassName mixins = Inr (cd, after)"
    then obtain rs where rs: "map_error (classStep h) props = Inr rs"
      and "after = map (snd \<circ> snd) rs"
      by (auto simp: createClass_def classLoop_eq split: sum.splits)
    with classSteps_frame [OF rs] show "length after = length props
      \<and> map eo_key after = map eo_key props \<and> map eo_kind after = map eo_kind props
      \<and> map eo_type after = map eo_type props \<and> map eo_computed after = map eo_computed props
      \<and> map eo_name after = map eo_name props \<and> map eo_comments after = map eo_comments props
      \<and> map eo_isClassDecorator after = map eo_isClassDecorator props
      \<and> map eo_isCallExpression after = map eo_isCallExpression props"
      using frame_fields by blast
  qed
  have b: "validKind (propKind (fp_kind fp)) \<and> isFunctionExpression (fp_value fp)
        \<and> find_expr (fp_key fp) = [] \<longrightarrow>
        map_sum id snd (createMethodProp fp ds) =
          Inr (fp\<lparr>fp_value := replace_expr (fp_key fp) (fp_value fp)\<rparr>)"
    by (simp add: createMethodProp_ok)
  have c: "eo_isClassDecorator p
        \<or> eo_type p \<noteq> ''FunctionExpression'' \<and> \<not> eo_isCallExpression p
           \<and> eo_name p \<noteq> ''actions'' \<longrightarrow>
        map_sum id (snd \<circ> snd) (classStep h p) = Inr p"
    by (auto simp: classStep_def)
  have d: "\<not> eo_isClassDecorator p \<and> eo_type p = ''FunctionExpression''
        \<and> validKind (propKind (eo_kind p)) \<and> isFunctionExpression (eo_value p)
        \<and> find_expr (eo_key p) = [] \<longrightarrow>
        map_sum id (snd \<circ> snd) (classStep h p) =
          Inr (p\<lparr>eo_value := replace_expr (eo_key p) (eo_value p)\<rparr>)"
    by (simp add: classStep_def createMethodProp_ok functionProp_of_eoProp_def)
  have e: "eo_value p = CallExpression f args
        \<and> (args = [] \<or> \<not> isFunctionExpression (last args)
              \<and> (\<forall>entries. last args \<noteq> ObjectExpression entries)) \<longrightarrow>
        map_sum id snd (createCallExpressionProp h p) = Inr p"
    by (cases "last args") (auto simp: createCallExpressionProp_def callExprArgs_def)
  have f: "eo_value p = CallExpression f args \<and> args \<noteq> [] \<and> isFunctionExpression (last args)
        \<and> validKind (propKind (eo_kind p)) \<and> find_expr (eo_key p) = [] \<longrightarrow>
        map_sum id snd (createCallExpressionProp h p) =
          Inr (p\<lparr>eo_value := CallExpression f
                 (butlast args @ [replace_expr (eo_key p) (last args)])\<rparr>)"
    by (simp add: createCallExpressionProp_function)
  have g: "eo_value p = CallExpression f args \<and> args \<noteq> [] \<and> last args = ObjectExpression entries
        \<and> entries \<noteq> [] \<and> list_all (methodEntry h) entries \<and> find_expr (eo_key p) = [] \<longrightarrow>
        map_sum id snd (createCallExpressionProp h p) =
          Inr (p\<lparr>eo_value := CallExpression f
                 (butlast args @ [ObjectExpression (map (overwritten h p) entries)])\<rparr>)"
  proof (intro impI, elim conjE)
    assume h: "eo_value p = CallExpression f args" "args \<noteq> []"
      "last args = ObjectExpression entries" "entries \<noteq> []"
      "list_all (methodEntry h) entries" "find_expr (eo_key p) = []"
    from h(4) obtain x xs where xs: "entries = x # xs" by (cases entries) auto
    show "map_sum id snd (createCallExpressionProp h p) =
          Inr (p\<lparr>eo_value := CallExpression f
                 (butlast args @ [ObjectExpression (map (overwritten h p) entries)])\<rparr>)"
      using createCallExpressionProp_object
        [OF h(1,2) h(3) [unfolded xs] h(5) [unfolded xs] h(6)]
      by (simp add: xs)
  qed
  have i: "eo_value p = ObjectExpression actionProps \<and> list_all actionEntry actionProps \<longrightarrow>
        map_sum id snd (createActionDecoratedProps h p) =
          Inr (p\<lparr>eo_value := ObjectExpression (map rewrittenEntry actionProps)\<rparr>)"
    by (simp add: createActionDecoratedProps_object)
  from a b c d e f g i show ?thesis by blast
qed

text \<open>
  As the claim states it, the input properties are identical before and after. The
  entry \<^verbatim>\<open>get(key) { this._super(); }\<close> of the computed property \<^verbatim>\<open>full\<close> comes back,
  inside the value of the property, with kind \<^verbatim>\<open>get\<close>, key \<^verbatim>\<open>full\<close>, no parameter and
  a rewritten body.
\<close>

theorem entries_overwritten_counterexample:
  "map_sum id (eo_value \<circ> snd)
     (createCallExpressionProp sampleHelpers
        (callProp ''full''
           [ObjectExpression
              [Property ''init'' (Identifier ''get'') (func [''key''] [thisSuper []]) None]]
           None))
     = Inr (CallExpression (Identifier ''computed'')
         [ObjectExpression
            [Property ''get'' (Identifier ''full'') (func [] [superCall ''full'' []]) None]])
   \<and> eo_value
       (callProp ''full''
           [ObjectExpression
              [Property ''init'' (Identifier ''get'') (func [''key''] [thisSuper []]) None]]
           None)
     = CallExpression (Identifier ''computed'')
         [ObjectExpression
            [Property ''init'' (Identifier ''get'') (func [''key''] [thisSuper []]) None]]"
  by (simp add: sample_defs eval_defs)

theorem inputs_after_synthesis_witness:
  "(\<exists>cd after.
      createClass sampleHelpers ''Foo''
        [sampleDecorator, sampleFunction, sampleAccessors, sampleActions, samplePlain]
        ''EmberObject'' [] = Inr (cd, after)
      \<and> map eo_key after =
          [Identifier ''tagName'', Identifier ''init'', Identifier ''full'',
           Identifier ''actions'', Identifier ''title'']
      \<and> map eo_comments after =
          [None, Some [''// set up''], Some [''// full''], Some [''// handlers''],
           Some [''// title'']])
   \<and> map_sum id snd (createMethodProp
        \<lparr>fp_kind = ''init'', fp_key = Identifier ''init'',
         fp_value = func [] [thisSuper []], fp_comments = None\<rparr> [])
     = Inr \<lparr>fp_kind = ''init'', fp_key = Identifier ''init'',
         fp_value = func [] [superCall ''init'' []], fp_comments = None\<rparr>
   \<and> map_sum id (snd \<circ> snd) (classStep sampleHelpers sampleDecorator) = Inr sampleDecorator
   \<and> map_sum id (snd \<circ> snd) (classStep sampleHelpers samplePlain) = Inr samplePlain
   \<and> map_sum id (snd \<circ> snd) (classStep sampleHelpers sampleFunction)
     = Inr (sampleFunction\<lparr>eo_value := func [] [superCall ''init'' [Identifier ''arguments'']]\<rparr>)
   \<and> map_sum id snd
       (createCallExpressionProp sampleHelpers (callProp ''nick'' [Literal ''other''] None))
     = Inr (callProp ''nick'' [Literal ''other''] None)
   \<and> map_sum id (eo_value \<circ> snd)
       (createCallExpressionProp sampleHelpers
          (callProp ''area'' [Literal ''w'', func [] [thisSuper []]] None))
     = Inr (CallExpression (Identifier ''computed'')
          [Literal ''w'', func [] [superCall ''area'' []]])
   \<and> map_sum id (eo_value \<circ> snd)
       (createCallExpressionProp sampleHelpers sampleAccessors)
     = Inr (CallExpression (Identifier ''computed'')
         [Literal ''first'',
          ObjectExpression
            [Property ''get'' (Identifier ''full'') (func [] [superCall ''full'' []])
               (Some [''// g'']),
             Property ''set'' (Identifier ''full'') (func [''v''] []) (Some [''// s''])]])
   \<and> map_sum id (eo_value \<circ> snd) (createActionDecoratedProps sampleHelpers sampleActions)
     = Inr (ObjectExpression
          [Property ''init'' (Identifier ''save'') (func [] [superCall ''save'' []])
             (Some [''// save'']),
           Property ''init'' (Identifier ''cancel'') (func [] []) None])"
proof -
  let ?props = "[sampleDecorator, sampleFunction, sampleAccessors, sampleActions, samplePlain]"
  let ?fp = "\<lparr>fp_kind = ''init'', fp_key = Identifier ''init'',
         fp_value = func [] [thisSuper []], fp_comments = None\<rparr>"
  let ?lit = "callProp ''nick'' [Literal ''other''] None"
  let ?area = "callProp ''area'' [Literal ''w'', func [] [thisSuper []]] None"
  obtain cd after where c: "createClass sampleHelpers ''Foo'' ?props ''EmberObject'' [] =
      Inr (cd, after)"
    by (simp add: createClass_def sample_defs eval_defs)
  have keys: "list_all (\<lambda>p. find_expr (eo_key p) = []) ?props"
    by (simp add: sample_defs)
  from keys c inputs_after_synthesis [where h = sampleHelpers and className = "''Foo''"
      and props = ?props and superClassName = "''EmberObject''" and mixins = "[]"
      and cd = cd and after = after]
  have "map eo_key after = map eo_key ?props \<and> map eo_comments after = map eo_comments ?props"
    by blast
  then have a1: "map eo_key after =
          [Identifier ''tagName'', Identifier ''init'', Identifier ''full'',
           Identifier ''actions'', Identifier ''title'']"
    and a2: "map eo_comments after =
          [None, Some [''// set up''], Some [''// full''], Some [''// handlers''],
           Some [''// title'']]"
    by (simp_all add: sample_defs)
  have "validKind (propKind (fp_kind ?fp)) \<and> isFunctionExpression (fp_value ?fp)
      \<and> find_expr (fp_key ?fp) = []"
    by (simp add: validKind_def propKind_def func_def)
  with inputs_after_synthesis [where fp = ?fp and ds = "[]"]
  have "map_sum id snd (createMethodProp ?fp []) =
      Inr (?fp\<lparr>fp_value := replace_expr (fp_key ?fp) (fp_value ?fp)\<rparr>)"
    by blast
  then have b: "map_sum id snd (createMethodProp ?fp []) =
      Inr \<lparr>fp_kind = ''init'', fp_key = Identifier ''init'',
         fp_value = func [] [superCall ''init'' []], fp_comments = None\<rparr>"
    by (simp add: func_def thisSuper_def superCall_def memberExpression_def)
  have "eo_isClassDecorator sampleDecorator" by (simp add: sample_defs)
  with inputs_after_synthesis [where h = sampleHelpers and p = sampleDecorator]
  have d: "map_sum id (snd \<circ> snd) (classStep sampleHelpers sampleDecorator) = Inr sampleDecorator"
    by blast
  have "eo_type samplePlain \<noteq> ''FunctionExpression'' \<and> \<not> eo_isCallExpression samplePlain
      \<and> eo_name samplePlain \<noteq> ''actions''"
    by (simp add: sample_defs)
  with inputs_after_synthesis [where h = sampleHelpers and p = samplePlain]
  have e: "map_sum id (snd \<circ> snd) (classStep sampleHelpers samplePlain) = Inr samplePlain"
    by blast
  have "\<not> eo_isClassDecorator sampleFunction \<and> eo_type sampleFunction = ''FunctionExpression''
      \<and> validKind (propKind (eo_kind sampleFunction))
      \<and> isFunctionExpression (eo_value sampleFunction)
      \<and> find_expr (eo_key sampleFunction) = []"
    by (simp add: sample_defs validKind_def propKind_def)
  with inputs_after_synthesis [where h = sampleHelpers and p = sampleFunction]
  have "map_sum id (snd \<circ> snd) (classStep sampleHelpers sampleFunction) =
      Inr (sampleFunction\<lparr>eo_value :=
        replace_expr (eo_key sampleFunction) (eo_value sampleFunction)\<rparr>)"
    by blast
  then have f: "map_sum id (snd \<circ> snd) (classStep sampleHelpers sampleFunction)
     = Inr (sampleFunction\<lparr>eo_value := func [] [superCall ''init'' [Identifier ''arguments'']]\<rparr>)"
    by (simp add: sample_defs memberExpression_def)
  have "eo_value ?lit = CallExpression (Identifier ''computed'') [Literal ''other'']
      \<and> ([Literal ''other''] = [] \<or> \<not> isFunctionExpression (last [Literal ''other''])
            \<and> (\<forall>entries. last [Literal ''other''] \<noteq> ObjectExpression entries))"
    by (simp add: callProp_def)
  with inputs_after_synthesis [where h = sampleHelpers and p = ?lit
      and f = "Identifier ''computed''" and args = "[Literal ''other'']"]
  have g: "map_sum id snd (createCallExpressionProp sampleHelpers ?lit) = Inr ?lit"
    by blast
  have "eo_value ?area =
        CallExpression (Identifier ''computed'') [Literal ''w'', func [] [thisSuper []]]
      \<and> [Literal ''w'', func [] [thisSuper []]] \<noteq> []
      \<and> isFunctionExpression (last [Literal ''w'', func [] [thisSuper []]])
      \<and> validKind (propKind (eo_kind ?area)) \<and> find_expr (eo_key ?area) = []"
    by (simp add: callProp_def func_def validKind_def propKind_def)
  with inputs_after_synthesis [where h = sampleHelpers and p = ?area
      and f = "Identifier ''computed''" and args = "[Literal ''w'', func [] [thisSuper []]]"]
  have "map_sum id snd (createCallExpressionProp sampleHelpers ?area) =
      Inr (?area\<lparr>eo_value := CallExpression (Identifier ''computed'')
        (butlast [Literal ''w'', func [] [thisSuper []]]
         @ [replace_expr (eo_key ?area) (last [Literal ''w'', func [] [thisSuper []]])])\<rparr>)"
    by blast
  then have i: "map_sum id (eo_value \<circ> snd) (createCallExpressionProp sampleHelpers ?area)
     = Inr (CallExpression (Identifier ''computed'')
          [Literal ''w'', func [] [superCall ''area'' []]])"
    by (cases "createCallExpressionProp sampleHelpers ?area")
      (auto simp: callProp_def func_def thisSuper_def superCall_def memberExpression_def)
  have "eo_value sampleAccessors =
        CallExpression (Identifier ''computed'') [Literal ''first'', ObjectExpression sampleEntries]
      \<and> [Literal ''first'', ObjectExpression sampleEntries] \<noteq> []
      \<and> last [Literal ''first'', ObjectExpression sampleEntries] = ObjectExpression sampleEntries
      \<and> sampleEntries \<noteq> []
      \<and> list_all (methodEntry sampleHelpers) sampleEntries
      \<and> find_expr (eo_key sampleAccessors) = []"
    by (simp add: sampleAccessors_def sampleEntries_def callProp_def func_def methodEntry_def
        sampleHelpers_def validKind_def propKind_def)
  with inputs_after_synthesis [where h = sampleHelpers and p = sampleAccessors
      and f = "Identifier ''computed''"
      and args = "[Literal ''first'', ObjectExpression sampleEntries]" and entries = sampleEntries]
  have "map_sum id snd (createCallExpressionProp sampleHelpers sampleAccessors) =
      Inr (sampleAccessors\<lparr>eo_value := CallExpression (Identifier ''computed'')
        (butlast [Literal ''first'', ObjectExpression sampleEntries]
         @ [ObjectExpression (map (overwritten sampleHelpers sampleAccessors) sampleEntries)])\<rparr>)"
    by blast
  then have j: "map_sum id (eo_value \<circ> snd)
       (createCallExpressionProp sampleHelpers sampleAccessors)
     = Inr (CallExpression (Identifier ''computed'')
         [Literal ''first'',
          ObjectExpression
            [Property ''get'' (Identifier ''full'') (func [] [superCall ''full'' []])
               (Some [''// g'']),
             Property ''set'' (Identifier ''full'') (func [''v''] []) (Some [''// s''])]])"
    by (cases "createCallExpressionProp sampleHelpers sampleAccessors")
      (auto simp: sample_defs overwritten_def memberExpression_def)
  have "eo_value sampleActions = ObjectExpression sampleActionEntries
      \<and> list_all actionEntry sampleActionEntries"
    by (simp add: sampleActions_def plainProp_def sampleActionEntries_def actionEntry_def
        func_def validKind_def propKind_def)
  with inputs_after_synthesis [where h = sampleHelpers and p = sampleActions
      and actionProps = sampleActionEntries]
  have "map_sum id snd (createActionDecoratedProps sampleHelpers sampleActions) =
          Inr (sampleActions\<lparr>eo_value :=
                 ObjectExpression (map rewrittenEntry sampleActionEntries)\<rparr>)"
    by blast
  then have k: "map_sum id (eo_value \<circ> snd)
       (createActionDecoratedProps sampleHelpers sampleActions)
     = Inr (ObjectExpression
          [Property ''init'' (Identifier ''save'') (func [] [superCall ''save'' []])
             (Some [''// save'']),
           Property ''init'' (Identifier ''cancel'') (func [] []) None])"
    by (cases "createActionDecoratedProps sampleHelpers sampleActions")
      (auto simp: sample_defs rewrittenEntry_def memberExpression_def)
  show ?thesis
    by (intro conjI exI [of _ cd] exI [of _ after]) (rule c a1 a2 b d e f g i j k)+
qed

end
